theory Spec2Isabelle
  imports Complex_Main "HOL-Library.Word"
begin

section \<open>Kinect utility (\<^verbatim>\<open>Kinect/Kinect-Utility.cpp\<close>)\<close>

subsection \<open>Raw depth validity\<close>

text \<open>
  \<^verbatim>\<open>bool Kinect_IsDepthValid(unsigned short Depth)\<close>: \<^verbatim>\<open>unsigned short\<close> is a 16-bit
  word. In the comparisons the operand is promoted to \<^verbatim>\<open>int\<close>, which holds every
  16-bit value, so both comparisons are on the unsigned value \<open>uint Depth\<close>.
\<close>

definition Kinect_IsDepthValid :: "16 word \<Rightarrow> bool" where
  "Kinect_IsDepthValid Depth =
     (if uint Depth > 0 \<and> uint Depth \<noteq> 0x07ff then True else False)"

subsection \<open>C floating-point values\<close>

text \<open>
  A \<^verbatim>\<open>float\<close> or \<^verbatim>\<open>double\<close> is a finite number, an infinity or a NaN. The finite
  values are read as reals; the result of an operation on finite operands is the exact real
  result handed to a rounding function, which is a parameter of the model (one for
  \<^verbatim>\<open>float\<close>, one for \<^verbatim>\<open>double\<close>), so that nothing proved below depends on how the
  hardware rounds or on where it overflows. The special values follow IEEE 754. The sign of a
  zero is not represented: a zero divisor counts as \<open>+0\<close>.
\<close>

datatype cfloat = NaN | MInf | Fin real | PInf

record fpu =
  rnd_float :: "real \<Rightarrow> cfloat"
  rnd_double :: "real \<Rightarrow> cfloat"

text \<open>Exact arithmetic: no rounding at all.\<close>

definition exact :: fpu where
  "exact = \<lparr>rnd_float = Fin, rnd_double = Fin\<rparr>"

fun fadd :: "(real \<Rightarrow> cfloat) \<Rightarrow> cfloat \<Rightarrow> cfloat \<Rightarrow> cfloat" where
  "fadd r NaN b = NaN"
| "fadd r a NaN = NaN"
| "fadd r PInf MInf = NaN"
| "fadd r MInf PInf = NaN"
| "fadd r PInf b = PInf"
| "fadd r a PInf = PInf"
| "fadd r MInf b = MInf"
| "fadd r a MInf = MInf"
| "fadd r (Fin a) (Fin b) = r (a + b)"

fun fneg :: "cfloat \<Rightarrow> cfloat" where
  "fneg NaN = NaN"
| "fneg PInf = MInf"
| "fneg MInf = PInf"
| "fneg (Fin a) = Fin (- a)"

definition fsub :: "(real \<Rightarrow> cfloat) \<Rightarrow> cfloat \<Rightarrow> cfloat \<Rightarrow> cfloat" where
  "fsub r a b = fadd r a (fneg b)"

text \<open>The sign of an operand: \<open>1\<close>, \<open>-1\<close>, or \<open>0\<close> for a zero; NaN has none.\<close>

fun fsign :: "cfloat \<Rightarrow> int" where
  "fsign NaN = 0"
| "fsign PInf = 1"
| "fsign MInf = - 1"
| "fsign (Fin a) = (if a > 0 then 1 else if a < 0 then - 1 else 0)"

definition signed_inf :: "int \<Rightarrow> cfloat" where
  "signed_inf s = (if s > 0 then PInf else if s < 0 then MInf else NaN)"

fun fmul :: "(real \<Rightarrow> cfloat) \<Rightarrow> cfloat \<Rightarrow> cfloat \<Rightarrow> cfloat" where
  "fmul r NaN b = NaN"
| "fmul r a NaN = NaN"
| "fmul r (Fin a) (Fin b) = r (a * b)"
| "fmul r a b = signed_inf (fsign a * fsign b)"

fun fdiv :: "(real \<Rightarrow> cfloat) \<Rightarrow> cfloat \<Rightarrow> cfloat \<Rightarrow> cfloat" where
  "fdiv r NaN b = NaN"
| "fdiv r a NaN = NaN"
| "fdiv r (Fin a) (Fin b) =
     (if b = 0 then signed_inf (fsign (Fin a)) else r (a / b))"
| "fdiv r (Fin a) b = Fin 0"
| "fdiv r a (Fin b) = signed_inf (fsign a * (if b < 0 then - 1 else 1))"
| "fdiv r a b = NaN"

text \<open>The comparison \<^verbatim>\<open><\<close>: false as soon as one operand is NaN.\<close>

fun fless :: "cfloat \<Rightarrow> cfloat \<Rightarrow> bool" where
  "fless NaN b = False"
| "fless a NaN = False"
| "fless a MInf = False"
| "fless MInf b = True"
| "fless PInf b = False"
| "fless a PInf = True"
| "fless (Fin a) (Fin b) = (a < b)"

text \<open>The conversion \<^verbatim>\<open>(float)\<close> of a \<^verbatim>\<open>double\<close>.\<close>

fun to_float :: "fpu \<Rightarrow> cfloat \<Rightarrow> cfloat" where
  "to_float fp (Fin a) = rnd_float fp a"
| "to_float fp a = a"

text \<open>
  The macros of \<^verbatim>\<open>stdlib.h\<close>:
  \<^verbatim>\<open>#define __max(a,b) (((a) > (b)) ? (a) : (b))\<close> and
  \<^verbatim>\<open>#define __min(a,b) (((a) < (b)) ? (a) : (b))\<close>.
\<close>

definition c_max :: "cfloat \<Rightarrow> cfloat \<Rightarrow> cfloat" where
  "c_max a b = (if fless b a then a else b)"

definition c_min :: "cfloat \<Rightarrow> cfloat \<Rightarrow> cfloat" where
  "c_min a b = (if fless a b then a else b)"

subsection \<open>Depth, world and RGB coordinates\<close>

text \<open>
  The constants of \<^verbatim>\<open>Kinect-Utility.h\<close> and the globals of \<^verbatim>\<open>Kinect-Utility.cpp\<close>, at
  the values they are initialised with. A literal with the suffix \<^verbatim>\<open>f\<close> is rounded to
  \<^verbatim>\<open>float\<close>, one without to \<^verbatim>\<open>double\<close>; \<open>-10\<close> is an integer and exact.
\<close>

definition Kinect_MinDistance :: cfloat where
  "Kinect_MinDistance = Fin (- 10)"

definition Kinect_DepthScaleFactor :: "fpu \<Rightarrow> cfloat" where
  "Kinect_DepthScaleFactor fp = rnd_float fp (21 / 10000)"

definition Kinect_ColorScaleFactor :: "fpu \<Rightarrow> cfloat" where
  "Kinect_ColorScaleFactor fp = rnd_float fp (23 / 10000)"

definition Kinect_rgbxoffset :: "fpu \<Rightarrow> cfloat" where
  "Kinect_rgbxoffset fp = rnd_double fp (- 18 / 10)"

definition Kinect_rgbyoffset :: "fpu \<Rightarrow> cfloat" where
  "Kinect_rgbyoffset fp = rnd_double fp (- 24 / 10)"

text \<open>
  \<^verbatim>\<open>void KinectDepthToWorld(float &x, float &y, float &z)\<close>: the three references are
  the result triple.
\<close>

definition KinectDepthToWorld :: "fpu \<Rightarrow> cfloat \<times> cfloat \<times> cfloat \<Rightarrow> cfloat \<times> cfloat \<times> cfloat" where
  "KinectDepthToWorld fp v =
     (case v of (x, y, z) \<Rightarrow>
        let r = rnd_float fp;
            zz = z;
            xx = fmul r (fmul r (fsub r x (Fin 320)) (fadd r zz Kinect_MinDistance))
                   (Kinect_DepthScaleFactor fp);
            yy = fmul r (fmul r (fsub r y (Fin 240)) (fadd r zz Kinect_MinDistance))
                   (Kinect_DepthScaleFactor fp);
            zz = fsub r zz (Fin 200);
            zz = fmul r zz (Fin (- 1))
        in (xx, yy, zz))"

text \<open>
  \<^verbatim>\<open>void KinectWorldToRGBSpace(float &x, float &y, float z)\<close>. Its first two statements,
  \<^verbatim>\<open>z*=-1; z+=200;\<close>, turn the world depth back into the raw depth.
\<close>

definition world_z_to_depth :: "fpu \<Rightarrow> cfloat \<Rightarrow> cfloat" where
  "world_z_to_depth fp z =
     (let z = fmul (rnd_float fp) z (Fin (- 1));
          z = fadd (rnd_float fp) z (Fin 200)
      in z)"

definition KinectWorldToRGBSpace :: "fpu \<Rightarrow> cfloat \<Rightarrow> cfloat \<Rightarrow> cfloat \<Rightarrow> cfloat \<times> cfloat" where
  "KinectWorldToRGBSpace fp x y z =
     (let r = rnd_float fp; d = rnd_double fp;
          z = world_z_to_depth fp z;
          ox = fdiv r (to_float fp (fdiv d (fadd d x (Kinect_rgbxoffset fp))
                                           (Kinect_ColorScaleFactor fp)))
                 (fadd r z Kinect_MinDistance);
          oy = fdiv r (to_float fp (fdiv d (fadd d y (Kinect_rgbyoffset fp))
                                           (Kinect_ColorScaleFactor fp)))
                 (fadd r z Kinect_MinDistance);
          ox = fadd r ox (Fin 320);
          oy = fadd r oy (Fin 240)
      in (c_min (Fin 640) (c_max (Fin 0) ox), c_min (Fin 480) (c_max (Fin 0) oy)))"



section \<open>The console application (\<^verbatim>\<open>Calibration/cvStructuredLight_Raj.cpp\<close>)\<close>

text \<open>
  \<^verbatim>\<open>main\<close> is a sequence of calls into OpenCV, the camera back-end, the file system and
  the calibration and scanning classes, none of which is part of the file. The model keeps
  the state \<^verbatim>\<open>main\<close> owns and the order of its calls: what the outside answers is read
  from a record of inputs, and every call with an effect outside the program is written to
  a list of events. Console output (\<^verbatim>\<open>printf\<close>) is not recorded, nor are the calls that
  set up the Kinect device once it has been found. The buffers of 1024 characters that hold
  the path of the configuration file and the composed file names are taken to be long
  enough.
\<close>

type_synonym c_int = "32 word"
type_synonym uchar = "8 word"

subsection \<open>OpenCV arrays\<close>

text \<open>
  A \<^verbatim>\<open>CvMat\<close> of type \<^verbatim>\<open>CV_32FC1\<close> is its header and \<open>rows * cols\<close> elements; an
  \<^verbatim>\<open>IplImage\<close> of depth \<^verbatim>\<open>IPL_DEPTH_8U\<close> is its header and \<open>width * height\<close> pixels of
  \<open>nChannels\<close> bytes each. An element that was allocated and never written is \<open>None\<close>.
\<close>

record CvMat =
  mat_rows :: c_int
  mat_cols :: c_int
  mat_data :: "cfloat option list"

record IplImage =
  img_width :: c_int
  img_height :: c_int
  img_nChannels :: c_int
  img_pixels :: "uchar list option list"

type_synonym CvScalar = "real \<times> real \<times> real \<times> real"

text \<open>\<^verbatim>\<open>cvScalar(v0, v1 = 0, v2 = 0, v3 = 0)\<close>, with one and with three arguments.\<close>

definition cvScalar1 :: "real \<Rightarrow> CvScalar" where
  "cvScalar1 v0 = (v0, 0, 0, 0)"

definition cvScalar3 :: "real \<Rightarrow> real \<Rightarrow> real \<Rightarrow> CvScalar" where
  "cvScalar3 v0 v1 v2 = (v0, v1, v2, 0)"

definition scalar_channels :: "CvScalar \<Rightarrow> real list" where
  "scalar_channels sc = (case sc of (v0, v1, v2, v3) \<Rightarrow> [v0, v1, v2, v3])"

text \<open>\<^verbatim>\<open>FLT_MAX\<close> of \<^verbatim>\<open>float.h\<close>, the largest finite \<^verbatim>\<open>float\<close>.\<close>

definition FLT_MAX :: real where
  "FLT_MAX = (2 ^ 24 - 1) * 2 ^ 104"

text \<open>A \<^verbatim>\<open>double\<close> stored into a byte: rounded, and clipped to \<open>0 .. 255\<close>.\<close>

definition saturate_uchar :: "real \<Rightarrow> uchar" where
  "saturate_uchar v =
     (if v \<le> 0 then 0 else if 255 \<le> v then 255 else word_of_int (round v))"

definition cvCreateMat :: "c_int \<Rightarrow> c_int \<Rightarrow> CvMat" where
  "cvCreateMat rows cols =
     \<lparr>mat_rows = rows, mat_cols = cols,
      mat_data = replicate (nat (sint rows * sint cols)) None\<rparr>"

definition cvCreateImage :: "c_int \<Rightarrow> c_int \<Rightarrow> c_int \<Rightarrow> IplImage" where
  "cvCreateImage w h channels =
     \<lparr>img_width = w, img_height = h, img_nChannels = channels,
      img_pixels = replicate (nat (sint w * sint h)) None\<rparr>"

text \<open>
  \<^verbatim>\<open>cvSet\<close> writes the scalar to every element: the first component to each element of a
  one-channel matrix, the first \<open>nChannels\<close> components to each pixel of an image.
  \<^verbatim>\<open>cvZero\<close> clears every pixel. The values \<^verbatim>\<open>main\<close> stores in a matrix are
  \<^verbatim>\<open>float\<close>s already and are stored as they are.
\<close>

definition cvSet_mat :: "CvMat \<Rightarrow> CvScalar \<Rightarrow> CvMat" where
  "cvSet_mat m sc = m\<lparr>mat_data := map (\<lambda>_. Some (Fin (fst sc))) (mat_data m)\<rparr>"

definition cvSet_img :: "IplImage \<Rightarrow> CvScalar \<Rightarrow> IplImage" where
  "cvSet_img im sc =
     im\<lparr>img_pixels :=
          map (\<lambda>_. Some (map saturate_uchar
                            (take (nat (sint (img_nChannels im))) (scalar_channels sc))))
            (img_pixels im)\<rparr>"

definition cvZero :: "IplImage \<Rightarrow> IplImage" where
  "cvZero im =
     im\<lparr>img_pixels :=
          map (\<lambda>_. Some (replicate (nat (sint (img_nChannels im))) 0)) (img_pixels im)\<rparr>"

subsection \<open>Parameters, calibration, session\<close>

text \<open>
  \<^verbatim>\<open>struct slParams\<close> and \<^verbatim>\<open>struct slCalib\<close> are declared in \<^verbatim>\<open>cvStructuredLight.h\<close>;
  the records have the fields that \<^verbatim>\<open>main\<close> reads or writes. The fundamental matrix
  object is the matrix it was given, if any. A pointer that has not been assigned yet is an
  array without elements.
\<close>

record slParams =
  outdir :: string
  object :: string
  cam_w :: c_int
  cam_h :: c_int
  proj_w :: c_int
  proj_h :: c_int
  Logitech_9000 :: bool

record slCalib =
  cam_intrinsic_calib :: bool
  proj_intrinsic_calib :: bool
  procam_extrinsic_calib :: bool
  cam_intrinsic :: CvMat
  cam_distortion :: CvMat
  cam_extrinsic :: CvMat
  proj_intrinsic :: CvMat
  proj_distortion :: CvMat
  proj_extrinsic :: CvMat
  cam_center :: CvMat
  proj_center :: CvMat
  cam_rays :: CvMat
  proj_rays :: CvMat
  proj_column_planes :: CvMat
  proj_row_planes :: CvMat
  fundMatrx :: "CvMat option"
  background_depth_map :: CvMat
  background_image :: IplImage
  background_mask :: IplImage

definition unassigned_mat :: CvMat where
  "unassigned_mat = \<lparr>mat_rows = 0, mat_cols = 0, mat_data = []\<rparr>"

definition unassigned_img :: IplImage where
  "unassigned_img = \<lparr>img_width = 0, img_height = 0, img_nChannels = 0, img_pixels = []\<rparr>"

text \<open>The local variables of \<^verbatim>\<open>main\<close> that live through the command loop.\<close>

record session =
  configFile :: string
  sl_params :: slParams
  sl_calib :: slCalib
  proj_frame :: IplImage
  scan_index :: c_int
  cvKey :: c_int

subsection \<open>The outside\<close>

datatype event =
    ReadConfiguration string
  | WriteConfiguration string slParams
  | NamedWindow string
  | ShowImage string IplImage
  | MoveWindow string c_int c_int
  | WaitKey c_int
  | DestroyWindow string
  | Mkdir string
  | System string
  | RunStructuredLight c_int
  | RunBackgroundCapture
  | RunCameraCalibration
  | RunProjectorCalibration bool
  | RunProCamExtrinsicCalibration
  | EndCapture

text \<open>
  What the outside answers during one run. \<open>USE_CAMERA_ID\<close> is the macro that selects the
  camera back-end; \<open>args\<close> are the command line arguments after the program name;
  \<open>readConfiguration f\<close> is \<open>None\<close> when \<^verbatim>\<open>fopen\<close> cannot open \<open>f\<close> and the parameters
  read from it otherwise; \<open>cvLoad f\<close> is \<open>None\<close> for the null pointer; \<open>mkdir_status\<close> is
  the value of the last \<^verbatim>\<open>_mkdir\<close>; \<open>keys\<close> are the values of the successive calls of
  \<^verbatim>\<open>_getch\<close>. The calibration and scanning operations get pointers to the parameters and
  to the calibration and may change both; they are taken to return.
\<close>

record world =
  USE_CAMERA_ID :: int
  GetKinectCount :: c_int
  GetKinect :: bool
  args :: "string list"
  readConfiguration :: "string \<Rightarrow> slParams option"
  camera_Init :: "slParams \<Rightarrow> c_int \<times> slParams"
  camera_StartCapture :: c_int
  camera_QueryFrame :: bool
  mkdir_status :: c_int
  cvLoad :: "string \<Rightarrow> CvMat option"
  runStructuredLight :: "slParams \<Rightarrow> slCalib \<Rightarrow> c_int \<Rightarrow> slParams \<times> slCalib"
  runBackgroundCapture :: "slParams \<Rightarrow> slCalib \<Rightarrow> slParams \<times> slCalib"
  runCameraCalibration :: "slParams \<Rightarrow> slCalib \<Rightarrow> slParams \<times> slCalib"
  runProjectorCalibration :: "slParams \<Rightarrow> slCalib \<Rightarrow> bool \<Rightarrow> slParams \<times> slCalib"
  runProCamExtrinsicCalibration :: "slParams \<Rightarrow> slCalib \<Rightarrow> slParams \<times> slCalib"
  keys :: "c_int list"

text \<open>
  How a run ends: \<^verbatim>\<open>main\<close> returns a value, or it waits in \<^verbatim>\<open>_getch\<close> for a key that
  never comes.
\<close>

datatype outcome = Exit c_int | Waiting

subsection \<open>Startup\<close>

text \<open>
  Lines 46 to 83: the camera object. \<open>Some c\<close> is \<^verbatim>\<open>return c\<close>. Only the Kinect back-end
  (any \<open>USE_CAMERA_ID\<close> other than 0, 1 and 2) can return here.
\<close>

definition create_camera :: "world \<Rightarrow> c_int option" where
  "create_camera w =
     (if USE_CAMERA_ID w = 0 then None
      else if USE_CAMERA_ID w = 1 then None
      else if USE_CAMERA_ID w = 2 then None
      else if sint (GetKinectCount w) < 1 then Some 0
      else if \<not> GetKinect w then Some 0
      else None)"

text \<open>Lines 90 to 94: \<open>argc = 1\<close> when there is no argument.\<close>

definition config_path :: "world \<Rightarrow> string" where
  "config_path w = (case args w of [] \<Rightarrow> ''./config.xml'' | a # _ \<Rightarrow> a)"

text \<open>\<^verbatim>\<open>_getch(); return c;\<close>\<close>

definition getch_return :: "c_int list \<Rightarrow> c_int \<Rightarrow> outcome" where
  "getch_return ks c = (case ks of [] \<Rightarrow> Waiting | k # _ \<Rightarrow> Exit c)"

definition backslash :: string where
  "backslash = [CHR 0x5C]"

definition dquote :: string where
  "dquote = [CHR 0x22]"

text \<open>Lines 161 to 181.\<close>

definition alloc_calib :: "slParams \<Rightarrow> slCalib" where
  "alloc_calib p =
     (let cam_nelems = cam_w p * cam_h p;
          proj_nelems = proj_w p * proj_h p
      in \<lparr>cam_intrinsic_calib = False,
          proj_intrinsic_calib = False,
          procam_extrinsic_calib = False,
          cam_intrinsic = cvCreateMat 3 3,
          cam_distortion = cvCreateMat 5 1,
          cam_extrinsic = cvCreateMat 2 3,
          proj_intrinsic = cvCreateMat 3 3,
          proj_distortion = cvCreateMat 5 1,
          proj_extrinsic = cvCreateMat 2 3,
          cam_center = cvCreateMat 3 1,
          proj_center = cvCreateMat 3 1,
          cam_rays = cvCreateMat 3 cam_nelems,
          proj_rays = cvCreateMat 3 cam_nelems,
          proj_column_planes = cvCreateMat (proj_w p) 4,
          proj_row_planes = cvCreateMat (proj_h p) 4,
          fundMatrx = None,
          background_depth_map = unassigned_mat,
          background_image = unassigned_img,
          background_mask = unassigned_img\<rparr>)"

text \<open>Lines 183 to 194.\<close>

definition load_cam_intrinsic :: "(string \<Rightarrow> CvMat option) \<Rightarrow> slParams \<Rightarrow> slCalib \<Rightarrow> slCalib" where
  "load_cam_intrinsic ld p c =
     (let str1 = outdir p @ backslash @ ''calib'' @ backslash @ ''cam'' @ backslash
                   @ ''cam_intrinsic.xml'';
          str2 = outdir p @ backslash @ ''calib'' @ backslash @ ''cam'' @ backslash
                   @ ''cam_distortion.xml''
      in case (ld str1, ld str2) of
           (Some m1, Some m2) \<Rightarrow>
             c\<lparr>cam_intrinsic := m1, cam_distortion := m2, cam_intrinsic_calib := True\<rparr>
         | _ \<Rightarrow> c)"

text \<open>Lines 196 to 201.\<close>

definition load_fundamental_matrix :: "(string \<Rightarrow> CvMat option) \<Rightarrow> slParams \<Rightarrow> slCalib \<Rightarrow> slCalib" where
  "load_fundamental_matrix ld p c =
     (let str1 = outdir p @ backslash @ ''calib'' @ backslash @ ''proj'' @ backslash
                   @ ''fundamental_matrix.xml''
      in case ld str1 of
           Some m \<Rightarrow> c\<lparr>fundMatrx := Some m\<rparr>
         | None \<Rightarrow> c)"

text \<open>Lines 203 to 213.\<close>

definition load_proj_intrinsic :: "(string \<Rightarrow> CvMat option) \<Rightarrow> slParams \<Rightarrow> slCalib \<Rightarrow> slCalib" where
  "load_proj_intrinsic ld p c =
     (let str1 = outdir p @ backslash @ ''calib'' @ backslash @ ''proj'' @ backslash
                   @ ''proj_intrinsic.xml'';
          str2 = outdir p @ backslash @ ''calib'' @ backslash @ ''proj'' @ backslash
                   @ ''proj_distortion.xml''
      in case (ld str1, ld str2) of
           (Some m1, Some m2) \<Rightarrow>
             c\<lparr>proj_intrinsic := m1, proj_distortion := m2, proj_intrinsic_calib := True\<rparr>
         | _ \<Rightarrow> c)"

text \<open>Lines 215 to 227. The files are looked at only when both intrinsic flags are set.\<close>

definition cam_extrinsic_file :: "slParams \<Rightarrow> string" where
  "cam_extrinsic_file p =
     outdir p @ backslash @ ''calib'' @ backslash @ ''proj'' @ backslash @ ''cam_extrinsic.xml''"

definition proj_extrinsic_file :: "slParams \<Rightarrow> string" where
  "proj_extrinsic_file p =
     outdir p @ backslash @ ''calib'' @ backslash @ ''proj'' @ backslash @ ''proj_extrinsic.xml''"

definition load_procam_extrinsic :: "(string \<Rightarrow> CvMat option) \<Rightarrow> slParams \<Rightarrow> slCalib \<Rightarrow> slCalib" where
  "load_procam_extrinsic ld p c =
     (let str1 = cam_extrinsic_file p;
          str2 = proj_extrinsic_file p
      in if (cam_intrinsic_calib c \<and> proj_intrinsic_calib c)
            \<and> (ld str1 \<noteq> None \<and> ld str2 \<noteq> None)
         then c\<lparr>cam_extrinsic := the (ld str1), proj_extrinsic := the (ld str2),
                procam_extrinsic_calib := True\<rparr>
         else c)"

text \<open>Lines 229 to 235.\<close>

definition init_background :: "slParams \<Rightarrow> slCalib \<Rightarrow> slCalib" where
  "init_background p c =
     (let c = c\<lparr>background_depth_map := cvCreateMat (cam_h p) (cam_w p)\<rparr>;
          c = c\<lparr>background_image := cvCreateImage (cam_w p) (cam_h p) 3\<rparr>;
          c = c\<lparr>background_mask := cvCreateImage (cam_w p) (cam_h p) 1\<rparr>;
          c = c\<lparr>background_depth_map := cvSet_mat (background_depth_map c) (cvScalar1 FLT_MAX)\<rparr>;
          c = c\<lparr>background_image := cvZero (background_image c)\<rparr>;
          c = c\<lparr>background_mask := cvSet_img (background_mask c) (cvScalar1 255)\<rparr>
      in c)"

text \<open>Lines 161 to 235: the calibration the command loop starts with.\<close>

definition startup_calib :: "world \<Rightarrow> slParams \<Rightarrow> slCalib" where
  "startup_calib w p =
     (let c = alloc_calib p;
          c = load_cam_intrinsic (cvLoad w) p c;
          c = load_fundamental_matrix (cvLoad w) p c;
          c = load_proj_intrinsic (cvLoad w) p c;
          c = load_procam_extrinsic (cvLoad w) p c;
          c = init_background p c
      in c)"

text \<open>
  Lines 46 to 238: everything before the command loop. \<open>Inl\<close> is a run that ends here,
  with the events so far; \<open>Inr\<close> is the session the command loop starts from.
\<close>

definition startup :: "world \<Rightarrow> (outcome \<times> event list) + (session \<times> event list)" where
  "startup w =
     (case create_camera w of
        Some c \<Rightarrow> Inl (Exit c, [])
      | None \<Rightarrow>
          let cfg = config_path w in
          (case readConfiguration w cfg of
             None \<Rightarrow> Inl (getch_return (keys w) (- 1), [])
           | Some p0 \<Rightarrow>
               let tr = [ReadConfiguration cfg];
                   (retVal, p) = camera_Init w p0
               in if retVal \<noteq> 0 then Inl (Exit (- 1), tr)
                  else if camera_StartCapture w \<noteq> 0 then Inl (Exit (- 1), tr)
                  else if \<not> camera_QueryFrame w then Inl (getch_return (keys w) (- 1), tr)
                  else
                    let frame = cvCreateImage (proj_w p) (proj_h p) 3;
                        frame = cvSet_img frame (cvScalar3 255 0 0);
                        tr = tr @ [NamedWindow ''projWindow'', ShowImage ''projWindow'' frame,
                                   MoveWindow ''projWindow'' (- proj_w p - 11) (- 33), WaitKey 1];
                        dir = outdir p @ backslash @ object p;
                        tr = tr @ [Mkdir (outdir p), Mkdir dir,
                                   System (''rd /s /q '' @ dquote @ dir @ dquote), Mkdir dir]
                    in if mkdir_status w \<noteq> 0 then Inl (getch_return (keys w) (- 1), tr)
                       else
                         Inr (\<lparr>configFile = cfg, sl_params = p,
                                sl_calib = startup_calib w p,
                                proj_frame = frame, scan_index = 0, cvKey = 0\<rparr>, tr)))"

subsection \<open>The command loop\<close>

text \<open>
  Lines 249 to 299, the chain of comparisons of \<open>cvKey\<close>: whether the loop is left, the
  session afterwards, and the events. \<^verbatim>\<open>NULL\<close> is 0.
\<close>

definition parse_keystroke :: "world \<Rightarrow> session \<Rightarrow> bool \<times> session \<times> event list" where
  "parse_keystroke w s =
     (if cvKey s = 27 then
        (True, s,
         WriteConfiguration (configFile s) (sl_params s)
           # (if Logitech_9000 (sl_params s) then [System ''Bayer.exe 0 > nul''] else []))
      else if cvKey s = of_char CHR ''s'' then
        (let s = s\<lparr>scan_index := scan_index s + 1\<rparr>;
             (p, c) = runStructuredLight w (sl_params s) (sl_calib s) (scan_index s)
         in (False, s\<lparr>sl_params := p, sl_calib := c, cvKey := 0\<rparr>,
             [RunStructuredLight (scan_index s)]))
      else if cvKey s = of_char CHR ''b'' then
        (let c = sl_calib s;
             c = c\<lparr>background_depth_map := cvSet_mat (background_depth_map c) (cvScalar1 FLT_MAX)\<rparr>;
             c = c\<lparr>background_image := cvZero (background_image c)\<rparr>;
             c = c\<lparr>background_mask := cvSet_img (background_mask c) (cvScalar1 255)\<rparr>;
             (p, c) = runBackgroundCapture w (sl_params s) c
         in (False, s\<lparr>sl_params := p, sl_calib := c, cvKey := 0\<rparr>, [RunBackgroundCapture]))
      else if cvKey s = of_char CHR ''r'' then
        (let c = sl_calib s;
             c = c\<lparr>background_depth_map := cvSet_mat (background_depth_map c) (cvScalar1 FLT_MAX)\<rparr>;
             c = c\<lparr>background_image := cvZero (background_image c)\<rparr>;
             c = c\<lparr>background_mask := cvSet_img (background_mask c) (cvScalar1 255)\<rparr>
         in (False, s\<lparr>sl_calib := c, cvKey := 0\<rparr>, []))
      else if cvKey s = of_char CHR ''c'' then
        (let (p, c) = runCameraCalibration w (sl_params s) (sl_calib s)
         in (False, s\<lparr>sl_params := p, sl_calib := c, cvKey := 0\<rparr>, [RunCameraCalibration]))
      else if cvKey s = of_char CHR ''p'' then
        (let (p, c) = runProjectorCalibration w (sl_params s) (sl_calib s) False
         in (False, s\<lparr>sl_params := p, sl_calib := c, cvKey := 0\<rparr>,
             [RunProjectorCalibration False]))
      else if cvKey s = of_char CHR ''a'' then
        (let (p, c) = runProjectorCalibration w (sl_params s) (sl_calib s) True
         in (False, s\<lparr>sl_params := p, sl_calib := c, cvKey := 0\<rparr>,
             [RunProjectorCalibration True]))
      else if cvKey s = of_char CHR ''e'' then
        (let (p, c) = runProCamExtrinsicCalibration w (sl_params s) (sl_calib s)
         in (False, s\<lparr>sl_params := p, sl_calib := c, cvKey := 0\<rparr>,
             [RunProCamExtrinsicCalibration]))
      else (False, s, []))"

text \<open>Lines 244 to 312: one pass through the body of the loop, up to \<^verbatim>\<open>_getch\<close>.\<close>

definition loop_body :: "world \<Rightarrow> session \<Rightarrow> bool \<times> session \<times> event list" where
  "loop_body w s =
     (let s = s\<lparr>proj_frame := cvSet_img (proj_frame s) (cvScalar3 255 255 255)\<rparr>;
          ev = [ShowImage ''projWindow'' (proj_frame s), WaitKey 1];
          (brk, s, ev') = parse_keystroke w s
      in (brk, s, ev @ ev'))"

text \<open>
  Lines 242 to 316. The loop is left by \<^verbatim>\<open>break\<close> (\<open>True\<close>); when the keys run out it
  waits in \<^verbatim>\<open>_getch\<close> (\<open>False\<close>).
\<close>

fun command_loop :: "world \<Rightarrow> session \<Rightarrow> c_int list \<Rightarrow> bool \<times> session \<times> event list" where
  "command_loop w s [] = loop_body w s"
| "command_loop w s (k # ks) =
     (case loop_body w s of (brk, s', ev) \<Rightarrow>
        if brk then (True, s', ev)
        else (case command_loop w (s'\<lparr>cvKey := k\<rparr>) ks of (brk', s'', ev') \<Rightarrow>
                (brk', s'', ev @ ev')))"

text \<open>\<^verbatim>\<open>int main(int argc, char* argv[])\<close>: how the run ends, and its events.\<close>

definition main :: "world \<Rightarrow> outcome \<times> event list" where
  "main w =
     (case startup w of
        Inl r \<Rightarrow> r
      | Inr (s, tr) \<Rightarrow>
          (case command_loop w s (keys w) of (brk, s', ev) \<Rightarrow>
             if brk then (Exit 0, tr @ ev @ [EndCapture, DestroyWindow ''projWindow''])
             else (Waiting, tr @ ev)))"


subsection \<open>Vocabulary of the properties\<close>

fun is_WriteConfiguration :: "event \<Rightarrow> bool" where
  "is_WriteConfiguration (WriteConfiguration f p) = True"
| "is_WriteConfiguration e = False"

fun is_ReadConfiguration :: "event \<Rightarrow> bool" where
  "is_ReadConfiguration (ReadConfiguration f) = True"
| "is_ReadConfiguration e = False"

fun is_ShowImage :: "event \<Rightarrow> bool" where
  "is_ShowImage (ShowImage n im) = True"
| "is_ShowImage e = False"





text \<open>
  A three-channel image of the projector's size whose pixels all have one colour, given
  as its bytes in the order they are stored (blue, green, red).
\<close>

definition solid_frame :: "slParams \<Rightarrow> uchar list \<Rightarrow> IplImage" where
  "solid_frame p colour =
     \<lparr>img_width = proj_w p, img_height = proj_h p, img_nChannels = 3,
      img_pixels = replicate (nat (sint (proj_w p) * sint (proj_h p))) (Some colour)\<rparr>"

text \<open>
  The default background model for a camera of \<open>w\<close> by \<open>h\<close> pixels: the depth map, the
  reference image and the mask.
\<close>

definition default_background :: "c_int \<Rightarrow> c_int \<Rightarrow> CvMat \<times> IplImage \<times> IplImage" where
  "default_background w h =
     (\<lparr>mat_rows = h, mat_cols = w,
       mat_data = replicate (nat (sint h * sint w)) (Some (Fin FLT_MAX))\<rparr>,
      \<lparr>img_width = w, img_height = h, img_nChannels = 3,
       img_pixels = replicate (nat (sint w * sint h)) (Some [0, 0, 0])\<rparr>,
      \<lparr>img_width = w, img_height = h, img_nChannels = 1,
       img_pixels = replicate (nat (sint w * sint h)) (Some [255])\<rparr>)"

definition background :: "slCalib \<Rightarrow> CvMat \<times> IplImage \<times> IplImage" where
  "background c = (background_depth_map c, background_image c, background_mask c)"

text \<open>
  The three statements \<^verbatim>\<open>cvSet\<close>, \<^verbatim>\<open>cvZero\<close>, \<^verbatim>\<open>cvSet\<close> on the background model,
  which \<^verbatim>\<open>main\<close> has at lines 233 to 235, 267 to 269 and 275 to 277.
\<close>

definition fill_background :: "slCalib \<Rightarrow> slCalib" where
  "fill_background c =
     c\<lparr>background_depth_map := cvSet_mat (background_depth_map c) (cvScalar1 FLT_MAX),
       background_image := cvZero (background_image c),
       background_mask := cvSet_img (background_mask c) (cvScalar1 255)\<rparr>"

text \<open>The size of an array: its header and the number of its elements.\<close>

definition mat_shape :: "CvMat \<Rightarrow> c_int \<times> c_int \<times> nat" where
  "mat_shape m = (mat_rows m, mat_cols m, length (mat_data m))"

definition img_shape :: "IplImage \<Rightarrow> c_int \<times> c_int \<times> c_int \<times> nat" where
  "img_shape im = (img_width im, img_height im, img_nChannels im, length (img_pixels im))"

definition background_shape :: "slCalib \<Rightarrow> (c_int \<times> c_int \<times> nat) \<times> (c_int \<times> c_int \<times> c_int \<times> nat) \<times> (c_int \<times> c_int \<times> c_int \<times> nat)" where
  "background_shape c =
     (mat_shape (background_depth_map c), img_shape (background_image c),
      img_shape (background_mask c))"

text \<open>
  The commands of the menu, the key that gives each (the character \<^verbatim>\<open>_getch\<close> returns
  for the key pressed alone, and 27 for the escape key), and what each is to run on the
  parameters, the calibration and the scan index: as the claim on the keys words it.
\<close>

datatype command =
    Run_scanner | Scan_background | Reset_background | Camera_calibration
  | Projector_calibration | Joint_calibration | Extrinsic_calibration | Exit_application

definition claimed_command :: "c_int \<Rightarrow> command option" where
  "claimed_command k =
     (if k = of_char CHR ''s'' then Some Run_scanner
      else if k = of_char CHR ''b'' then Some Scan_background
      else if k = of_char CHR ''r'' then Some Reset_background
      else if k = of_char CHR ''c'' then Some Camera_calibration
      else if k = of_char CHR ''p'' then Some Projector_calibration
      else if k = of_char CHR ''a'' then Some Joint_calibration
      else if k = of_char CHR ''e'' then Some Extrinsic_calibration
      else if k = 27 then Some Exit_application
      else None)"

type_synonym scanner = "slParams \<times> slCalib \<times> c_int"

definition scanner_of :: "session \<Rightarrow> scanner" where
  "scanner_of s = (sl_params s, sl_calib s, scan_index s)"

fun claimed_operation :: "world \<Rightarrow> command \<Rightarrow> scanner \<Rightarrow> scanner \<times> event list" where
  "claimed_operation w Run_scanner (p, c, i) =
     (case runStructuredLight w p c (i + 1) of (p', c') \<Rightarrow>
        ((p', c', i + 1), [RunStructuredLight (i + 1)]))"
| "claimed_operation w Scan_background (p, c, i) =
     (case runBackgroundCapture w p (fill_background c) of (p', c') \<Rightarrow>
        ((p', c', i), [RunBackgroundCapture]))"
| "claimed_operation w Reset_background (p, c, i) = ((p, fill_background c, i), [])"
| "claimed_operation w Camera_calibration (p, c, i) =
     (case runCameraCalibration w p c of (p', c') \<Rightarrow> ((p', c', i), [RunCameraCalibration]))"
| "claimed_operation w Projector_calibration (p, c, i) =
     (case runProjectorCalibration w p c False of (p', c') \<Rightarrow>
        ((p', c', i), [RunProjectorCalibration False]))"
| "claimed_operation w Joint_calibration (p, c, i) =
     (case runProjectorCalibration w p c True of (p', c') \<Rightarrow>
        ((p', c', i), [RunProjectorCalibration True]))"
| "claimed_operation w Extrinsic_calibration (p, c, i) =
     (case runProCamExtrinsicCalibration w p c of (p', c') \<Rightarrow>
        ((p', c', i), [RunProCamExtrinsicCalibration]))"
| "claimed_operation w Exit_application (p, c, i) =
     ((p, c, i),
      WriteConfiguration (config_path w) p
        # (if Logitech_9000 p then [System ''Bayer.exe 0 > nul''] else []))"

fun claimed_run :: "world \<Rightarrow> scanner \<Rightarrow> c_int list \<Rightarrow> bool \<times> scanner \<times> event list" where
  "claimed_run w st [] = (False, st, [])"
| "claimed_run w st (k # ks) =
     (case claimed_command k of
        None \<Rightarrow> claimed_run w st ks
      | Some cmd \<Rightarrow>
          (case claimed_operation w cmd st of (st', ev) \<Rightarrow>
             if cmd = Exit_application then (True, st', ev)
             else (case claimed_run w st' ks of (b, st'', ev') \<Rightarrow> (b, st'', ev @ ev'))))"

fun is_display :: "event \<Rightarrow> bool" where
  "is_display (ShowImage n im) = True"
| "is_display (WaitKey d) = True"
| "is_display e = False"

fun is_operation :: "event \<Rightarrow> bool" where
  "is_operation (RunStructuredLight i) = True"
| "is_operation RunBackgroundCapture = True"
| "is_operation RunCameraCalibration = True"
| "is_operation (RunProjectorCalibration b) = True"
| "is_operation RunProCamExtrinsicCalibration = True"
| "is_operation e = False"

subsection \<open>Sample runs\<close>

text \<open>
  A camera of 2 by 1 pixels and a projector of 2 by 2; every calibration file is there and
  holds the same 1 by 1 matrix; the background capture fills the depth map with 5.
\<close>

definition sample_params :: slParams where
  "sample_params =
     \<lparr>outdir = ''out'', object = ''obj'', cam_w = 2, cam_h = 1, proj_w = 2, proj_h = 2,
      Logitech_9000 = False\<rparr>"

definition sample_mat :: CvMat where
  "sample_mat = \<lparr>mat_rows = 1, mat_cols = 1, mat_data = [Some (Fin 1)]\<rparr>"

definition sample_world :: world where
  "sample_world =
     \<lparr>USE_CAMERA_ID = 0, GetKinectCount = 0, GetKinect = False, args = [],
      readConfiguration = (\<lambda>f. if f = ''./config.xml'' then Some sample_params else None),
      camera_Init = (\<lambda>p. (0, p)),
      camera_StartCapture = 0,
      camera_QueryFrame = True,
      mkdir_status = 0,
      cvLoad = (\<lambda>f. Some sample_mat),
      runStructuredLight = (\<lambda>p c i. (p, c)),
      runBackgroundCapture =
        (\<lambda>p c. (p, c\<lparr>background_depth_map :=
                         cvSet_mat (background_depth_map c) (cvScalar1 5)\<rparr>)),
      runCameraCalibration = (\<lambda>p c. (p, c)),
      runProjectorCalibration = (\<lambda>p c b. (p, c)),
      runProCamExtrinsicCalibration = (\<lambda>p c. (p, c)),
      keys = [of_char CHR ''b'', of_char CHR ''r'', 27]\<rparr>"

text \<open>The same with every command key pressed once, and with the upper-case letters.\<close>

definition sample_world_all_keys :: world where
  "sample_world_all_keys = sample_world\<lparr>keys := map of_char ''sbrcpae'' @ [27]\<rparr>"

definition sample_world_upper_case :: world where
  "sample_world_upper_case = sample_world\<lparr>keys := map of_char ''SBRCPAE'' @ [27]\<rparr>"

text \<open>The same, built for the Kinect back-end, with no Kinect plugged in.\<close>

definition sample_world_no_kinect :: world where
  "sample_world_no_kinect = sample_world\<lparr>USE_CAMERA_ID := 3, GetKinectCount := 0\<rparr>"

text \<open>The same as \<open>sample_world\<close>, without the camera's intrinsic calibration file.\<close>

definition sample_world_no_cam_intrinsic :: world where
  "sample_world_no_cam_intrinsic =
     sample_world\<lparr>cvLoad :=
       (\<lambda>f. if f = ''out'' @ backslash @ ''calib'' @ backslash @ ''cam'' @ backslash
                      @ ''cam_intrinsic.xml''
            then None else Some sample_mat)\<rparr>"


section \<open>Properties of the Kinect utility\<close>

text \<open>
  Claim C8. For every 16-bit raw depth value \<open>d\<close>, \<open>Kinect_IsDepthValid d\<close> is true if and
  only if \<open>d > 0\<close> and \<open>d \<noteq> 0x07ff\<close> (2047): zero and the sentinel 2047 are exactly the
  invalid raw depth readings.
\<close>

theorem Kinect_IsDepthValid_iff:
  "(Kinect_IsDepthValid d \<longleftrightarrow> 0 < unat d \<and> unat d \<noteq> 2047)
   \<and> {d. \<not> Kinect_IsDepthValid d} = {0, 2047}"
proof -
  have a: "Kinect_IsDepthValid x \<longleftrightarrow> 0 < unat x \<and> unat x \<noteq> 2047" for x
  proof -
    have "uint x = int (unat x)" by simp
    then show ?thesis
      unfolding Kinect_IsDepthValid_def by (simp del: of_nat_unat)
  qed
  have b: "unat x = 0 \<longleftrightarrow> x = 0" for x :: "16 word"
    by (simp add: unat_eq_0)
  have c: "unat x = 2047 \<longleftrightarrow> x = 2047" for x :: "16 word"
  proof
    assume "unat x = 2047"
    then have "word_of_nat (unat x) = (word_of_nat 2047 :: 16 word)" by simp
    then show "x = 2047" by simp
  next
    assume "x = 2047"
    then show "unat x = 2047" by simp
  qed
  show ?thesis
    using a b c by auto
qed



lemma KinectWorldToRGBSpace_NaN:
  "KinectWorldToRGBSpace fp NaN NaN z = (NaN, NaN)"
  by (simp add: KinectWorldToRGBSpace_def c_min_def c_max_def Let_def)


subsection \<open>Finite arguments\<close>
















text \<open>
  Claim C10. The depth-axis map of \<open>KinectDepthToWorld\<close>, \<open>z \<mapsto> -(z - 200)\<close> (the third
  component of its result), and the one of \<open>KinectWorldToRGBSpace\<close>, \<open>z \<mapsto> -z + 200\<close>, are
  mutually inverse in exact arithmetic: the first followed by the second gives back every
  depth value \<open>z\<close>, and so does the second followed by the first.
\<close>

theorem depth_axis_maps_inverse:
  "world_z_to_depth exact (snd (snd (KinectDepthToWorld exact (x, y, z)))) = z
   \<and> snd (snd (KinectDepthToWorld exact (x, y, world_z_to_depth exact z))) = z"
proof -
  have "world_z_to_depth exact (snd (snd (KinectDepthToWorld exact (x, y, z)))) = z"
    by (cases z)
      (simp_all add: world_z_to_depth_def KinectDepthToWorld_def exact_def fsub_def
        signed_inf_def Let_def)
  moreover have "snd (snd (KinectDepthToWorld exact (x, y, world_z_to_depth exact z))) = z"
    by (cases z)
      (simp_all add: world_z_to_depth_def KinectDepthToWorld_def exact_def fsub_def
        signed_inf_def Let_def)
  ultimately show ?thesis by blast
qed

section \<open>Properties of the console application\<close>

subsection \<open>What startup leaves behind\<close>

text \<open>
  A run that reaches the command loop has read the configuration, holds the calibration of
  \<open>startup_calib\<close> and the frame filled at line 140, and has shown that frame once.
\<close>
lemma startup_Inr:
  assumes "startup w = Inr (s, tr)"
  shows "\<exists>p0. readConfiguration w (config_path w) = Some p0
           \<and> sl_params s = snd (camera_Init w p0)"
    and "configFile s = config_path w"
    and "sl_calib s = startup_calib w (sl_params s)"
    and "proj_frame s = cvSet_img (cvCreateImage (proj_w (sl_params s)) (proj_h (sl_params s)) 3) (cvScalar3 255 0 0)"
    and "scan_index s = 0" and "cvKey s = 0"
    and "[e \<leftarrow> tr. is_ShowImage e] = [ShowImage ''projWindow'' (proj_frame s)]"
    and "[e \<leftarrow> tr. is_WriteConfiguration e] = []"
    and "[e \<leftarrow> tr. is_ReadConfiguration e] = [ReadConfiguration (config_path w)]"
  using assms
  unfolding startup_def
  by (auto simp: Let_def split: option.splits prod.splits if_splits)

lemma cvSet_img_solid:
  "img_nChannels im = 3 \<Longrightarrow>
   cvSet_img im (cvScalar3 a b c) =
     im\<lparr>img_pixels := replicate (length (img_pixels im))
            (Some [saturate_uchar a, saturate_uchar b, saturate_uchar c])\<rparr>"
  by (simp add: cvSet_img_def cvScalar3_def scalar_channels_def map_replicate_const)

lemma startup_frame:
  assumes "startup w = Inr (s, tr)"
  shows "proj_frame s = solid_frame (sl_params s) [255, 0, 0]"
  unfolding startup_Inr(4) [OF assms]
  by (simp add: cvSet_img_solid cvCreateImage_def solid_frame_def saturate_uchar_def)

lemma white_frame:
  "cvSet_img (solid_frame p colour) (cvScalar3 255 255 255) = solid_frame p [255, 255, 255]"
  by (simp add: cvSet_img_solid solid_frame_def saturate_uchar_def)

lemma parse_keystroke_keeps:
  assumes "parse_keystroke w s = (brk, s', ev)"
  shows "proj_frame s' = proj_frame s" and "configFile s' = configFile s"
    and "brk \<longleftrightarrow> cvKey s = 27"
    and "[e \<leftarrow> ev. is_ShowImage e] = []"
    and "[e \<leftarrow> ev. is_WriteConfiguration e] =
           (if cvKey s = 27 then [WriteConfiguration (configFile s) (sl_params s')] else [])"
  using assms unfolding parse_keystroke_def
  by (auto simp: Let_def split: if_splits prod.splits)

lemma loop_body_keeps:
  assumes "loop_body w s = (brk, s', ev)"
  shows "proj_frame s' = cvSet_img (proj_frame s) (cvScalar3 255 255 255)"
    and "configFile s' = configFile s"
    and "brk \<longleftrightarrow> cvKey s = 27"
    and "[e \<leftarrow> ev. is_ShowImage e] = [ShowImage ''projWindow'' (proj_frame s')]"
    and "[e \<leftarrow> ev. is_WriteConfiguration e] =
           (if brk then [WriteConfiguration (configFile s) (sl_params s')] else [])"
proof -
  let ?s1 = "s\<lparr>proj_frame := cvSet_img (proj_frame s) (cvScalar3 255 255 255)\<rparr>"
  obtain ev' where pk: "parse_keystroke w ?s1 = (brk, s', ev')"
    and ev: "ev = [ShowImage ''projWindow'' (proj_frame ?s1), WaitKey 1] @ ev'"
    using assms unfolding loop_body_def by (auto simp: Let_def split: prod.splits)
  note k = parse_keystroke_keeps [OF pk]
  show "proj_frame s' = cvSet_img (proj_frame s) (cvScalar3 255 255 255)"
    using k(1) by simp
  show "configFile s' = configFile s" using k(2) by simp
  show b: "brk \<longleftrightarrow> cvKey s = 27" using k(3) by simp
  show "[e \<leftarrow> ev. is_ShowImage e] = [ShowImage ''projWindow'' (proj_frame s')]"
    using k(1) k(4) ev by simp
  show "[e \<leftarrow> ev. is_WriteConfiguration e] =
           (if brk then [WriteConfiguration (configFile s) (sl_params s')] else [])"
    using k(5) b ev by simp
qed

lemma command_loop_config:
  "command_loop w s ks = (brk, s', ev) \<Longrightarrow>
     configFile s' = configFile s
     \<and> (brk \<longleftrightarrow> cvKey s = 27 \<or> 27 \<in> set ks)
     \<and> [e \<leftarrow> ev. is_WriteConfiguration e] =
         (if brk then [WriteConfiguration (configFile s) (sl_params s')] else [])"
proof (induction ks arbitrary: s brk s' ev)
  case Nil
  then have "loop_body w s = (brk, s', ev)" by simp
  from loop_body_keeps(2,3,5) [OF this] show ?case by simp
next
  case (Cons k ks)
  obtain b1 s1 ev1 where lb: "loop_body w s = (b1, s1, ev1)"
    by (cases "loop_body w s") auto
  note l = loop_body_keeps(2,3,5) [OF lb]
  show ?case
  proof (cases b1)
    case True
    with Cons.prems lb have "brk = True" "s' = s1" "ev = ev1" by simp_all
    with l True show ?thesis by simp
  next
    case False
    obtain b2 s2 ev2 where cl: "command_loop w (s1\<lparr>cvKey := k\<rparr>) ks = (b2, s2, ev2)"
      by (cases "command_loop w (s1\<lparr>cvKey := k\<rparr>) ks") auto
    with Cons.prems lb False have eq: "brk = b2" "s' = s2" "ev = ev1 @ ev2" by simp_all
    from Cons.IH [OF cl] l False eq show ?thesis by auto
  qed
qed

lemma command_loop_frame:
  "command_loop w s ks = (brk, s', ev) \<Longrightarrow> proj_frame s = solid_frame p colour \<Longrightarrow>
     proj_frame s' = solid_frame p [255, 255, 255]
     \<and> set [e \<leftarrow> ev. is_ShowImage e] = {ShowImage ''projWindow'' (solid_frame p [255, 255, 255])}"
proof (induction ks arbitrary: s brk s' ev colour)
  case Nil
  then have "loop_body w s = (brk, s', ev)" by simp
  from loop_body_keeps(1,4) [OF this] Nil.prems(2) show ?case
    by (simp add: white_frame)
next
  case (Cons k ks)
  obtain b1 s1 ev1 where lb: "loop_body w s = (b1, s1, ev1)"
    by (cases "loop_body w s") auto
  from loop_body_keeps(1,4) [OF lb] Cons.prems(2)
  have f1: "proj_frame s1 = solid_frame p [255, 255, 255]"
    and e1: "[e \<leftarrow> ev1. is_ShowImage e] = [ShowImage ''projWindow'' (solid_frame p [255, 255, 255])]"
    by (simp_all add: white_frame)
  show ?case
  proof (cases b1)
    case True
    with Cons.prems lb have "s' = s1" "ev = ev1" by simp_all
    with f1 e1 show ?thesis by simp
  next
    case False
    obtain b2 s2 ev2 where cl: "command_loop w (s1\<lparr>cvKey := k\<rparr>) ks = (b2, s2, ev2)"
      by (cases "command_loop w (s1\<lparr>cvKey := k\<rparr>) ks") auto
    with Cons.prems lb False have eq: "s' = s2" "ev = ev1 @ ev2" by simp_all
    have "proj_frame (s1\<lparr>cvKey := k\<rparr>) = solid_frame p [255, 255, 255]" using f1 by simp
    from Cons.IH [OF cl this] e1 eq show ?thesis by auto
  qed
qed

lemma init_background_keeps:
  "cam_intrinsic_calib (init_background p c) = cam_intrinsic_calib c"
  "proj_intrinsic_calib (init_background p c) = proj_intrinsic_calib c"
  "procam_extrinsic_calib (init_background p c) = procam_extrinsic_calib c"
  "cam_rays (init_background p c) = cam_rays c"
  "proj_rays (init_background p c) = proj_rays c"
  "proj_column_planes (init_background p c) = proj_column_planes c"
  "proj_row_planes (init_background p c) = proj_row_planes c"
  by (simp_all add: init_background_def Let_def)

lemma load_procam_extrinsic_flag:
  "procam_extrinsic_calib (load_procam_extrinsic ld p c)
     \<longleftrightarrow> procam_extrinsic_calib c
         \<or> (cam_intrinsic_calib c \<and> proj_intrinsic_calib c
             \<and> ld (cam_extrinsic_file p) \<noteq> None \<and> ld (proj_extrinsic_file p) \<noteq> None)"
  "cam_intrinsic_calib (load_procam_extrinsic ld p c) = cam_intrinsic_calib c"
  "proj_intrinsic_calib (load_procam_extrinsic ld p c) = proj_intrinsic_calib c"
  "cam_rays (load_procam_extrinsic ld p c) = cam_rays c"
  "proj_rays (load_procam_extrinsic ld p c) = proj_rays c"
  "proj_column_planes (load_procam_extrinsic ld p c) = proj_column_planes c"
  "proj_row_planes (load_procam_extrinsic ld p c) = proj_row_planes c"
  by (auto simp: load_procam_extrinsic_def Let_def)

lemma load_proj_intrinsic_flag:
  "proj_intrinsic_calib (load_proj_intrinsic ld p c)
     \<longleftrightarrow> proj_intrinsic_calib c
         \<or> (ld (outdir p @ backslash @ ''calib'' @ backslash @ ''proj'' @ backslash
                  @ ''proj_intrinsic.xml'') \<noteq> None
             \<and> ld (outdir p @ backslash @ ''calib'' @ backslash @ ''proj'' @ backslash
                  @ ''proj_distortion.xml'') \<noteq> None)"
  "cam_intrinsic_calib (load_proj_intrinsic ld p c) = cam_intrinsic_calib c"
  "procam_extrinsic_calib (load_proj_intrinsic ld p c) = procam_extrinsic_calib c"
  "cam_rays (load_proj_intrinsic ld p c) = cam_rays c"
  "proj_rays (load_proj_intrinsic ld p c) = proj_rays c"
  "proj_column_planes (load_proj_intrinsic ld p c) = proj_column_planes c"
  "proj_row_planes (load_proj_intrinsic ld p c) = proj_row_planes c"
  by (auto simp: load_proj_intrinsic_def Let_def split: option.splits)

lemma load_fundamental_matrix_keeps:
  "cam_intrinsic_calib (load_fundamental_matrix ld p c) = cam_intrinsic_calib c"
  "proj_intrinsic_calib (load_fundamental_matrix ld p c) = proj_intrinsic_calib c"
  "procam_extrinsic_calib (load_fundamental_matrix ld p c) = procam_extrinsic_calib c"
  "cam_rays (load_fundamental_matrix ld p c) = cam_rays c"
  "proj_rays (load_fundamental_matrix ld p c) = proj_rays c"
  "proj_column_planes (load_fundamental_matrix ld p c) = proj_column_planes c"
  "proj_row_planes (load_fundamental_matrix ld p c) = proj_row_planes c"
  by (simp_all add: load_fundamental_matrix_def Let_def split: option.splits)

lemma load_cam_intrinsic_flag:
  "cam_intrinsic_calib (load_cam_intrinsic ld p c)
     \<longleftrightarrow> cam_intrinsic_calib c
         \<or> (ld (outdir p @ backslash @ ''calib'' @ backslash @ ''cam'' @ backslash
                  @ ''cam_intrinsic.xml'') \<noteq> None
             \<and> ld (outdir p @ backslash @ ''calib'' @ backslash @ ''cam'' @ backslash
                  @ ''cam_distortion.xml'') \<noteq> None)"
  "proj_intrinsic_calib (load_cam_intrinsic ld p c) = proj_intrinsic_calib c"
  "procam_extrinsic_calib (load_cam_intrinsic ld p c) = procam_extrinsic_calib c"
  "cam_rays (load_cam_intrinsic ld p c) = cam_rays c"
  "proj_rays (load_cam_intrinsic ld p c) = proj_rays c"
  "proj_column_planes (load_cam_intrinsic ld p c) = proj_column_planes c"
  "proj_row_planes (load_cam_intrinsic ld p c) = proj_row_planes c"
  by (auto simp: load_cam_intrinsic_def Let_def split: option.splits)

lemma alloc_calib_fields:
  "\<not> cam_intrinsic_calib (alloc_calib p)"
  "\<not> proj_intrinsic_calib (alloc_calib p)"
  "\<not> procam_extrinsic_calib (alloc_calib p)"
  "cam_rays (alloc_calib p) = cvCreateMat 3 (cam_w p * cam_h p)"
  "proj_rays (alloc_calib p) = cvCreateMat 3 (cam_w p * cam_h p)"
  "proj_column_planes (alloc_calib p) = cvCreateMat (proj_w p) 4"
  "proj_row_planes (alloc_calib p) = cvCreateMat (proj_h p) 4"
  by (simp_all add: alloc_calib_def Let_def)

lemmas startup_steps =
  init_background_keeps load_procam_extrinsic_flag load_proj_intrinsic_flag
  load_fundamental_matrix_keeps load_cam_intrinsic_flag alloc_calib_fields

lemma startup_calib_flags:
  "cam_intrinsic_calib (startup_calib w p)
     \<longleftrightarrow> cvLoad w (outdir p @ backslash @ ''calib'' @ backslash @ ''cam'' @ backslash @ ''cam_intrinsic.xml'') \<noteq> None
       \<and> cvLoad w (outdir p @ backslash @ ''calib'' @ backslash @ ''cam'' @ backslash @ ''cam_distortion.xml'') \<noteq> None"
  "proj_intrinsic_calib (startup_calib w p)
     \<longleftrightarrow> cvLoad w (outdir p @ backslash @ ''calib'' @ backslash @ ''proj'' @ backslash @ ''proj_intrinsic.xml'') \<noteq> None
       \<and> cvLoad w (outdir p @ backslash @ ''calib'' @ backslash @ ''proj'' @ backslash @ ''proj_distortion.xml'') \<noteq> None"
  "procam_extrinsic_calib (startup_calib w p)
     \<longleftrightarrow> cam_intrinsic_calib (startup_calib w p) \<and> proj_intrinsic_calib (startup_calib w p)
       \<and> cvLoad w (cam_extrinsic_file p) \<noteq> None \<and> cvLoad w (proj_extrinsic_file p) \<noteq> None"
  unfolding startup_calib_def Let_def
  by (simp_all only: startup_steps simp_thms)

lemma sint_mult_in_range:
  fixes a b :: c_int
  assumes "- (2 ^ 31) \<le> sint a * sint b" and "sint a * sint b < 2 ^ 31"
  shows "sint (a * b) = sint a * sint b"
  using assms by (simp add: sint_word_ariths signed_take_bit_int_eq_self)

lemma startup_calib_shapes:
  "proj_rays (startup_calib w p) = cvCreateMat 3 (cam_w p * cam_h p)"
  "cam_rays (startup_calib w p) = cvCreateMat 3 (cam_w p * cam_h p)"
  "proj_column_planes (startup_calib w p) = cvCreateMat (proj_w p) 4"
  "proj_row_planes (startup_calib w p) = cvCreateMat (proj_h p) 4"
  unfolding startup_calib_def Let_def
  by (simp_all only: startup_steps)

text \<open>The sample runs reach the command loop.\<close>

lemma sample_world_starts:
  "\<exists>s tr. startup sample_world = Inr (s, tr) \<and> sl_params s = sample_params"
  by (simp add: startup_def create_camera_def config_path_def sample_world_def Let_def)

lemma sample_world_no_cam_starts:
  "\<exists>s tr. startup sample_world_no_cam_intrinsic = Inr (s, tr) \<and> sl_params s = sample_params"
  by (simp add: startup_def create_camera_def config_path_def sample_world_def
      sample_world_no_cam_intrinsic_def Let_def)

subsection \<open>Filling the background model\<close>

lemma cvSet_mat_shape:
  "cvSet_mat m sc =
     \<lparr>mat_rows = mat_rows m, mat_cols = mat_cols m,
      mat_data = replicate (length (mat_data m)) (Some (Fin (fst sc)))\<rparr>"
  by (cases m) (simp add: cvSet_mat_def map_replicate_const)

lemma cvZero_shape:
  "cvZero im =
     \<lparr>img_width = img_width im, img_height = img_height im, img_nChannels = img_nChannels im,
      img_pixels = replicate (length (img_pixels im))
                     (Some (replicate (nat (sint (img_nChannels im))) 0))\<rparr>"
  by (cases im) (simp add: cvZero_def map_replicate_const)

lemma cvSet_img_shape:
  "cvSet_img im sc =
     \<lparr>img_width = img_width im, img_height = img_height im, img_nChannels = img_nChannels im,
      img_pixels = replicate (length (img_pixels im))
                     (Some (map saturate_uchar
                              (take (nat (sint (img_nChannels im))) (scalar_channels sc))))\<rparr>"
  by (cases im) (simp add: cvSet_img_def map_replicate_const)

lemma background_fill_shape:
  assumes "background_shape c = background_shape c'"
  shows "background (fill_background c) = background (fill_background c')"
  using assms
  by (simp add: background_def fill_background_def background_shape_def mat_shape_def
      img_shape_def cvSet_mat_shape cvZero_shape cvSet_img_shape)

lemma startup_calib_background:
  "background (startup_calib w p) = default_background (cam_w p) (cam_h p)"
  "background (fill_background (startup_calib w p)) = default_background (cam_w p) (cam_h p)"
  unfolding startup_calib_def Let_def init_background_def background_def fill_background_def
    default_background_def
  by (simp_all add: cvSet_mat_shape cvZero_shape cvSet_img_shape cvCreateMat_def
      cvCreateImage_def cvScalar1_def scalar_channels_def saturate_uchar_def
      numeral_3_eq_3 mult.commute)

lemma parse_keystroke_reset:
  "cvKey s = of_char CHR ''r'' \<Longrightarrow>
   parse_keystroke w s = (False, s\<lparr>sl_calib := fill_background (sl_calib s), cvKey := 0\<rparr>, [])"
  by (simp add: parse_keystroke_def fill_background_def Let_def)

subsection \<open>The projector-camera flag (C1)\<close>

text \<open>
  Claim C1. The validity flag of the projector-camera extrinsics becomes true only when the
  validity flags of the camera intrinsics and of the projector intrinsics are already true:
  in the session that startup leaves, \<open>procam_extrinsic_calib\<close> holds only if
  \<open>cam_intrinsic_calib\<close> and \<open>proj_intrinsic_calib\<close> both hold; it holds exactly when,
  besides, the files \<^verbatim>\<open>cam_extrinsic.xml\<close> and \<^verbatim>\<open>proj_extrinsic.xml\<close> load, and it
  stays false otherwise.
\<close>

theorem procam_extrinsic_needs_intrinsics:
  assumes "startup w = Inr (s, tr)"
  shows "(procam_extrinsic_calib (sl_calib s)
            \<longrightarrow> cam_intrinsic_calib (sl_calib s) \<and> proj_intrinsic_calib (sl_calib s))
       \<and> (procam_extrinsic_calib (sl_calib s)
            \<longleftrightarrow> cam_intrinsic_calib (sl_calib s) \<and> proj_intrinsic_calib (sl_calib s)
                \<and> cvLoad w (cam_extrinsic_file (sl_params s)) \<noteq> None
                \<and> cvLoad w (proj_extrinsic_file (sl_params s)) \<noteq> None)"
  unfolding startup_Inr(3) [OF assms]
  using startup_calib_flags(3) [of w "sl_params s"] by blast


theorem procam_extrinsic_needs_intrinsics_witness:
  "(case startup sample_world of
      Inl r \<Rightarrow> False
    | Inr (s, tr) \<Rightarrow>
        procam_extrinsic_calib (sl_calib s)
        \<and> cam_intrinsic_calib (sl_calib s) \<and> proj_intrinsic_calib (sl_calib s))
   \<and> (case startup sample_world_no_cam_intrinsic of
      Inl r \<Rightarrow> False
    | Inr (s, tr) \<Rightarrow>
        cvLoad sample_world_no_cam_intrinsic (cam_extrinsic_file (sl_params s)) \<noteq> None
        \<and> cvLoad sample_world_no_cam_intrinsic (proj_extrinsic_file (sl_params s)) \<noteq> None
        \<and> proj_intrinsic_calib (sl_calib s)
        \<and> \<not> cam_intrinsic_calib (sl_calib s)
        \<and> \<not> procam_extrinsic_calib (sl_calib s))"
proof -
  obtain s tr where st: "startup sample_world = Inr (s, tr)"
    and p: "sl_params s = sample_params"
    using sample_world_starts by blast
  have pe: "procam_extrinsic_calib (sl_calib s)"
    unfolding startup_Inr(3) [OF st] p
    by (simp add: startup_calib_flags sample_world_def)
  from procam_extrinsic_needs_intrinsics [OF st] pe
  have "cam_intrinsic_calib (sl_calib s) \<and> proj_intrinsic_calib (sl_calib s)" by blast
  with st pe have one: "case startup sample_world of
      Inl r \<Rightarrow> False
    | Inr (s, tr) \<Rightarrow>
        procam_extrinsic_calib (sl_calib s)
        \<and> cam_intrinsic_calib (sl_calib s) \<and> proj_intrinsic_calib (sl_calib s)"
    by simp
  obtain s' tr' where st': "startup sample_world_no_cam_intrinsic = Inr (s', tr')"
    and p': "sl_params s' = sample_params"
    using sample_world_no_cam_starts by blast
  have files: "cvLoad sample_world_no_cam_intrinsic (cam_extrinsic_file (sl_params s')) \<noteq> None"
    "cvLoad sample_world_no_cam_intrinsic (proj_extrinsic_file (sl_params s')) \<noteq> None"
    by (simp_all add: p' sample_world_no_cam_intrinsic_def sample_world_def sample_params_def
        cam_extrinsic_file_def proj_extrinsic_file_def backslash_def)
  have pi: "proj_intrinsic_calib (sl_calib s')"
    unfolding startup_Inr(3) [OF st'] p'
    by (simp add: startup_calib_flags(2) sample_world_no_cam_intrinsic_def sample_world_def
        sample_params_def backslash_def)
  have ci: "\<not> cam_intrinsic_calib (sl_calib s')"
    unfolding startup_Inr(3) [OF st'] p'
    by (simp add: startup_calib_flags(1) sample_world_no_cam_intrinsic_def sample_world_def
        sample_params_def)
  from procam_extrinsic_needs_intrinsics [OF st'] ci
  have "\<not> procam_extrinsic_calib (sl_calib s')" by blast
  with st' files pi ci have two: "case startup sample_world_no_cam_intrinsic of
      Inl r \<Rightarrow> False
    | Inr (s, tr) \<Rightarrow>
        cvLoad sample_world_no_cam_intrinsic (cam_extrinsic_file (sl_params s)) \<noteq> None
        \<and> cvLoad sample_world_no_cam_intrinsic (proj_extrinsic_file (sl_params s)) \<noteq> None
        \<and> proj_intrinsic_calib (sl_calib s)
        \<and> \<not> cam_intrinsic_calib (sl_calib s)
        \<and> \<not> procam_extrinsic_calib (sl_calib s)"
    by simp
  from one two show ?thesis by blast
qed

subsection \<open>The sizes of the ray and plane tables (C6)\<close>

text \<open>
  Claim C6. The table \<open>proj_rays\<close> is allocated with one column per camera pixel: it has 3
  rows and \<open>cam_w * cam_h\<close> columns (the product as the program computes it in \<^verbatim>\<open>int\<close>,
  which is the product of the two numbers whenever that fits 32 bits), whatever the
  resolution of the projector; \<open>proj_column_planes\<close> has \<open>proj_w\<close> rows and
  \<open>proj_row_planes\<close> has \<open>proj_h\<close> rows, each of 4 coefficients.
\<close>

theorem proj_rays_camera_sized:
  assumes "startup w = Inr (s, tr)"
  shows "mat_rows (proj_rays (sl_calib s)) = 3
       \<and> mat_cols (proj_rays (sl_calib s)) = cam_w (sl_params s) * cam_h (sl_params s)
       \<and> (- (2 ^ 31) \<le> sint (cam_w (sl_params s)) * sint (cam_h (sl_params s))
            \<and> sint (cam_w (sl_params s)) * sint (cam_h (sl_params s)) < 2 ^ 31
          \<longrightarrow> sint (mat_cols (proj_rays (sl_calib s)))
                = sint (cam_w (sl_params s)) * sint (cam_h (sl_params s)))
       \<and> length (mat_data (proj_rays (sl_calib s)))
           = nat (3 * sint (cam_w (sl_params s) * cam_h (sl_params s)))
       \<and> (\<forall>pw ph. proj_rays (startup_calib w (sl_params s\<lparr>proj_w := pw, proj_h := ph\<rparr>))
                    = proj_rays (sl_calib s))
       \<and> mat_rows (proj_column_planes (sl_calib s)) = proj_w (sl_params s)
       \<and> mat_cols (proj_column_planes (sl_calib s)) = 4
       \<and> mat_rows (proj_row_planes (sl_calib s)) = proj_h (sl_params s)
       \<and> mat_cols (proj_row_planes (sl_calib s)) = 4"
  unfolding startup_Inr(3) [OF assms] startup_calib_shapes
  by (simp add: cvCreateMat_def sint_mult_in_range)

theorem proj_rays_camera_sized_witness:
  "case startup sample_world of
     Inl r \<Rightarrow> False
   | Inr (s, tr) \<Rightarrow>
       cam_w (sl_params s) = 2 \<and> cam_h (sl_params s) = 1
       \<and> proj_w (sl_params s) = 2 \<and> proj_h (sl_params s) = 2
       \<and> mat_rows (proj_rays (sl_calib s)) = 3
       \<and> sint (mat_cols (proj_rays (sl_calib s))) = 2
       \<and> mat_cols (proj_rays (sl_calib s)) \<noteq> proj_w (sl_params s) * proj_h (sl_params s)
       \<and> mat_rows (proj_column_planes (sl_calib s)) = 2
       \<and> mat_cols (proj_column_planes (sl_calib s)) = 4
       \<and> mat_rows (proj_row_planes (sl_calib s)) = 2
       \<and> mat_cols (proj_row_planes (sl_calib s)) = 4"
proof -
  obtain s tr where st: "startup sample_world = Inr (s, tr)"
    and "sl_params s = sample_params"
    using sample_world_starts by blast
  then have p: "cam_w (sl_params s) = 2" "cam_h (sl_params s) = 1"
      "proj_w (sl_params s) = 2" "proj_h (sl_params s) = 2"
    by (simp_all add: sample_params_def)
  from proj_rays_camera_sized [OF st] p st show ?thesis by simp
qed

subsection \<open>The background model (C4)\<close>

text \<open>
  Claim C4. At the start of the session the background model has every entry of the depth
  map equal to \<^verbatim>\<open>FLT_MAX\<close> (the largest finite \<^verbatim>\<open>float\<close>, which stands for plus
  infinity), a reference image of zeros and a mask that is 255 everywhere; and the command
  that resets the background (the key R) restores exactly these defaults: it keeps the
  sizes of the three arrays, sets every entry of the depth map to \<^verbatim>\<open>FLT_MAX\<close>, and on
  a session whose arrays have the sizes they were allocated with (no operation has put
  other arrays in their place) the background model is the one of the start again; it
  runs nothing else and stays in the loop.
\<close>

theorem background_defaults:
  assumes "startup w = Inr (s0, tr)"
  shows "background (sl_calib s0)
           = default_background (cam_w (sl_params s0)) (cam_h (sl_params s0))
       \<and> (cvKey s = of_char CHR ''r''
          \<longrightarrow> (case parse_keystroke w' s of (brk, s', ev) \<Rightarrow>
                 \<not> brk \<and> ev = []
                 \<and> mat_data (background_depth_map (sl_calib s'))
                     = replicate (length (mat_data (background_depth_map (sl_calib s))))
                         (Some (Fin FLT_MAX))
                 \<and> background_shape (sl_calib s') = background_shape (sl_calib s)
                 \<and> (background_shape (sl_calib s) = background_shape (sl_calib s0)
                    \<longrightarrow> background (sl_calib s')
                          = default_background (cam_w (sl_params s0)) (cam_h (sl_params s0)))))"
proof -
  note c0 = startup_Inr(3) [OF assms]
  have init: "background (sl_calib s0)
      = default_background (cam_w (sl_params s0)) (cam_h (sl_params s0))"
    unfolding c0 by (rule startup_calib_background)
  have reset: "background (fill_background (sl_calib s))
      = default_background (cam_w (sl_params s0)) (cam_h (sl_params s0))"
    if "background_shape (sl_calib s) = background_shape (sl_calib s0)"
    using background_fill_shape [OF that] startup_calib_background(2) [of w "sl_params s0"] c0
    by simp
  have depth: "mat_data (background_depth_map (fill_background (sl_calib s)))
      = replicate (length (mat_data (background_depth_map (sl_calib s)))) (Some (Fin FLT_MAX))"
    by (simp add: fill_background_def cvSet_mat_shape cvScalar1_def)
  have shape: "background_shape (fill_background (sl_calib s)) = background_shape (sl_calib s)"
    by (simp add: fill_background_def background_shape_def mat_shape_def img_shape_def
        cvSet_mat_shape cvZero_shape cvSet_img_shape)
  from init reset depth shape show ?thesis
    by (simp add: parse_keystroke_reset)
qed

theorem background_defaults_witness:
  "case startup sample_world of
     Inl r \<Rightarrow> False
   | Inr (s0, tr) \<Rightarrow>
       (let s = s0\<lparr>sl_calib := snd (runBackgroundCapture sample_world (sl_params s0) (sl_calib s0)),
                   cvKey := of_char CHR ''r''\<rparr>
        in background (sl_calib s0) = default_background 2 1
           \<and> background (sl_calib s) \<noteq> default_background 2 1
           \<and> (case parse_keystroke sample_world s of (brk, s', ev) \<Rightarrow>
                \<not> brk \<and> ev = [] \<and> background (sl_calib s') = default_background 2 1))"
proof -
  obtain s0 tr where st: "startup sample_world = Inr (s0, tr)"
    and p: "sl_params s0 = sample_params"
    using sample_world_starts by blast
  define s where "s = s0\<lparr>sl_calib := snd (runBackgroundCapture sample_world (sl_params s0) (sl_calib s0)),
                   cvKey := of_char CHR ''r''\<rparr>"
  have key: "cvKey s = of_char CHR ''r''" by (simp add: s_def)
  have shape: "background_shape (sl_calib s) = background_shape (sl_calib s0)"
    by (simp add: s_def sample_world_def background_shape_def mat_shape_def cvSet_mat_shape)
  have dims: "cam_w (sl_params s0) = 2" "cam_h (sl_params s0) = 1"
    by (simp_all add: p sample_params_def)
  from background_defaults [OF st, of s sample_world] key shape dims
  have d0: "background (sl_calib s0) = default_background 2 1"
    and r: "case parse_keystroke sample_world s of (brk, s', ev) \<Rightarrow>
                \<not> brk \<and> ev = [] \<and> background (sl_calib s') = default_background 2 1"
    by (auto split: prod.splits)
  have changed: "background (sl_calib s) \<noteq> default_background 2 1"
    using d0
    by (simp add: s_def sample_world_def background_def default_background_def cvSet_mat_shape
        cvScalar1_def FLT_MAX_def)
  from st d0 changed r show ?thesis
    by (simp add: s_def Let_def)
qed

subsection \<open>The keys (C3)\<close>

text \<open>What the chain of comparisons does for each of the eight keys.\<close>

lemma parse_keystroke_table:
  "parse_keystroke w (s\<lparr>cvKey := of_char CHR ''s''\<rparr>) =
     (case runStructuredLight w (sl_params s) (sl_calib s) (scan_index s + 1) of (p, c) \<Rightarrow>
        (False, s\<lparr>sl_params := p, sl_calib := c, scan_index := scan_index s + 1, cvKey := 0\<rparr>,
         [RunStructuredLight (scan_index s + 1)]))
   \<and> parse_keystroke w (s\<lparr>cvKey := of_char CHR ''b''\<rparr>) =
     (case runBackgroundCapture w (sl_params s) (fill_background (sl_calib s)) of (p, c) \<Rightarrow>
        (False, s\<lparr>sl_params := p, sl_calib := c, cvKey := 0\<rparr>, [RunBackgroundCapture]))
   \<and> parse_keystroke w (s\<lparr>cvKey := of_char CHR ''r''\<rparr>) =
        (False, s\<lparr>sl_calib := fill_background (sl_calib s), cvKey := 0\<rparr>, [])
   \<and> parse_keystroke w (s\<lparr>cvKey := of_char CHR ''c''\<rparr>) =
     (case runCameraCalibration w (sl_params s) (sl_calib s) of (p, c) \<Rightarrow>
        (False, s\<lparr>sl_params := p, sl_calib := c, cvKey := 0\<rparr>, [RunCameraCalibration]))
   \<and> parse_keystroke w (s\<lparr>cvKey := of_char CHR ''p''\<rparr>) =
     (case runProjectorCalibration w (sl_params s) (sl_calib s) False of (p, c) \<Rightarrow>
        (False, s\<lparr>sl_params := p, sl_calib := c, cvKey := 0\<rparr>, [RunProjectorCalibration False]))
   \<and> parse_keystroke w (s\<lparr>cvKey := of_char CHR ''a''\<rparr>) =
     (case runProjectorCalibration w (sl_params s) (sl_calib s) True of (p, c) \<Rightarrow>
        (False, s\<lparr>sl_params := p, sl_calib := c, cvKey := 0\<rparr>, [RunProjectorCalibration True]))
   \<and> parse_keystroke w (s\<lparr>cvKey := of_char CHR ''e''\<rparr>) =
     (case runProCamExtrinsicCalibration w (sl_params s) (sl_calib s) of (p, c) \<Rightarrow>
        (False, s\<lparr>sl_params := p, sl_calib := c, cvKey := 0\<rparr>, [RunProCamExtrinsicCalibration]))
   \<and> parse_keystroke w (s\<lparr>cvKey := 27\<rparr>) =
        (True, s\<lparr>cvKey := 27\<rparr>,
         WriteConfiguration (configFile s) (sl_params s)
           # (if Logitech_9000 (sl_params s) then [System ''Bayer.exe 0 > nul''] else []))"
proof -
  have s: "parse_keystroke w (s\<lparr>cvKey := of_char CHR ''s''\<rparr>) =
     (case runStructuredLight w (sl_params s) (sl_calib s) (scan_index s + 1) of (p, c) \<Rightarrow>
        (False, s\<lparr>sl_params := p, sl_calib := c, scan_index := scan_index s + 1, cvKey := 0\<rparr>,
         [RunStructuredLight (scan_index s + 1)]))"
    by (simp add: parse_keystroke_def Let_def split: prod.splits)
  have b: "parse_keystroke w (s\<lparr>cvKey := of_char CHR ''b''\<rparr>) =
     (case runBackgroundCapture w (sl_params s) (fill_background (sl_calib s)) of (p, c) \<Rightarrow>
        (False, s\<lparr>sl_params := p, sl_calib := c, cvKey := 0\<rparr>, [RunBackgroundCapture]))"
    by (simp add: parse_keystroke_def fill_background_def Let_def split: prod.splits)
  have r: "parse_keystroke w (s\<lparr>cvKey := of_char CHR ''r''\<rparr>) =
        (False, s\<lparr>sl_calib := fill_background (sl_calib s), cvKey := 0\<rparr>, [])"
    by (simp add: parse_keystroke_def fill_background_def Let_def)
  have c: "parse_keystroke w (s\<lparr>cvKey := of_char CHR ''c''\<rparr>) =
     (case runCameraCalibration w (sl_params s) (sl_calib s) of (p, c) \<Rightarrow>
        (False, s\<lparr>sl_params := p, sl_calib := c, cvKey := 0\<rparr>, [RunCameraCalibration]))"
    by (simp add: parse_keystroke_def Let_def split: prod.splits)
  have p: "parse_keystroke w (s\<lparr>cvKey := of_char CHR ''p''\<rparr>) =
     (case runProjectorCalibration w (sl_params s) (sl_calib s) False of (p, c) \<Rightarrow>
        (False, s\<lparr>sl_params := p, sl_calib := c, cvKey := 0\<rparr>, [RunProjectorCalibration False]))"
    by (simp add: parse_keystroke_def Let_def split: prod.splits)
  have a: "parse_keystroke w (s\<lparr>cvKey := of_char CHR ''a''\<rparr>) =
     (case runProjectorCalibration w (sl_params s) (sl_calib s) True of (p, c) \<Rightarrow>
        (False, s\<lparr>sl_params := p, sl_calib := c, cvKey := 0\<rparr>, [RunProjectorCalibration True]))"
    by (simp add: parse_keystroke_def Let_def split: prod.splits)
  have e: "parse_keystroke w (s\<lparr>cvKey := of_char CHR ''e''\<rparr>) =
     (case runProCamExtrinsicCalibration w (sl_params s) (sl_calib s) of (p, c) \<Rightarrow>
        (False, s\<lparr>sl_params := p, sl_calib := c, cvKey := 0\<rparr>, [RunProCamExtrinsicCalibration]))"
    by (simp add: parse_keystroke_def Let_def split: prod.splits)
  have esc: "parse_keystroke w (s\<lparr>cvKey := 27\<rparr>) =
        (True, s\<lparr>cvKey := 27\<rparr>,
         WriteConfiguration (configFile s) (sl_params s)
           # (if Logitech_9000 (sl_params s) then [System ''Bayer.exe 0 > nul''] else []))"
    by (simp add: parse_keystroke_def)
  from s b r c p a e esc show ?thesis by (intro conjI)
qed

text \<open>Every other value of the key, the upper-case letters among them, does nothing.\<close>

lemma other_keys_ignored:
  assumes "cvKey s \<notin> {27, of_char CHR ''s'', of_char CHR ''b'', of_char CHR ''r'',
             of_char CHR ''c'', of_char CHR ''p'', of_char CHR ''a'', of_char CHR ''e''}"
  shows "parse_keystroke w s = (False, s, [])"
  using assms by (simp add: parse_keystroke_def)

lemma upper_case_ignored:
  "k \<in> of_char ` set ''SBRCPAE'' \<Longrightarrow> parse_keystroke w (s\<lparr>cvKey := k\<rparr>) = (False, s\<lparr>cvKey := k\<rparr>, [])"
  by (auto simp: parse_keystroke_def)


text \<open>
  One pass of the loop runs the command of the current key, and the loop as a whole runs
  the commands of the keys in the order they are pressed, up to the escape key.
\<close>

lemma claimed_command_cases:
  obtains (esc) "k = 27"
  | (scan) "k = of_char CHR ''s''" | (bg) "k = of_char CHR ''b''"
  | (reset) "k = of_char CHR ''r''" | (cam) "k = of_char CHR ''c''"
  | (proj) "k = of_char CHR ''p''" | (joint) "k = of_char CHR ''a''"
  | (ext) "k = of_char CHR ''e''"
  | (other) "k \<notin> {27, of_char CHR ''s'', of_char CHR ''b'', of_char CHR ''r'',
             of_char CHR ''c'', of_char CHR ''p'', of_char CHR ''a'', of_char CHR ''e''}"
  by blast

lemma parse_keystroke_claimed:
  assumes pk: "parse_keystroke w s = (brk, s', ev)" and cfg: "configFile s = config_path w"
  shows "(case claimed_command (cvKey s) of
            None \<Rightarrow> \<not> brk \<and> scanner_of s' = scanner_of s \<and> ev = [] \<and> cvKey s' = cvKey s
          | Some cmd \<Rightarrow>
              claimed_operation w cmd (scanner_of s) = (scanner_of s', ev)
              \<and> (brk \<longleftrightarrow> cmd = Exit_application))"
proof (cases "cvKey s" rule: claimed_command_cases)
  case esc
  with pk cfg show ?thesis
    by (auto simp: parse_keystroke_def claimed_command_def scanner_of_def)
next
  case scan
  with pk show ?thesis
    by (auto simp: parse_keystroke_def claimed_command_def scanner_of_def Let_def
        split: prod.splits)
next
  case bg
  with pk show ?thesis
    by (auto simp: parse_keystroke_def claimed_command_def scanner_of_def Let_def
        fill_background_def split: prod.splits)
next
  case reset
  with pk show ?thesis
    by (auto simp: parse_keystroke_def claimed_command_def scanner_of_def Let_def
        fill_background_def)
next
  case cam
  with pk show ?thesis
    by (auto simp: parse_keystroke_def claimed_command_def scanner_of_def Let_def
        split: prod.splits)
next
  case proj
  with pk show ?thesis
    by (auto simp: parse_keystroke_def claimed_command_def scanner_of_def Let_def
        split: prod.splits)
next
  case joint
  with pk show ?thesis
    by (auto simp: parse_keystroke_def claimed_command_def scanner_of_def Let_def
        split: prod.splits)
next
  case ext
  with pk show ?thesis
    by (auto simp: parse_keystroke_def claimed_command_def scanner_of_def Let_def
        split: prod.splits)
next
  case other
  with pk show ?thesis
    by (auto simp: parse_keystroke_def claimed_command_def scanner_of_def)
qed

lemma claimed_operation_no_display:
  "claimed_operation w cmd st = (st', ev) \<Longrightarrow> [e \<leftarrow> ev. \<not> is_display e] = ev"
  by (cases cmd; cases st) (auto split: prod.splits)

lemma loop_body_claimed:
  assumes lb: "loop_body w s = (brk, s', ev)" and cfg: "configFile s = config_path w"
  shows "(case claimed_command (cvKey s) of
            None \<Rightarrow> \<not> brk \<and> scanner_of s' = scanner_of s \<and> [e \<leftarrow> ev. \<not> is_display e] = []
          | Some cmd \<Rightarrow>
              claimed_operation w cmd (scanner_of s)
                = (scanner_of s', [e \<leftarrow> ev. \<not> is_display e])
              \<and> (brk \<longleftrightarrow> cmd = Exit_application))"
proof -
  let ?s1 = "s\<lparr>proj_frame := cvSet_img (proj_frame s) (cvScalar3 255 255 255)\<rparr>"
  obtain ev' where pk: "parse_keystroke w ?s1 = (brk, s', ev')"
    and ev: "ev = [ShowImage ''projWindow'' (proj_frame ?s1), WaitKey 1] @ ev'"
    using lb unfolding loop_body_def by (auto simp: Let_def split: prod.splits)
  have cfg1: "configFile ?s1 = config_path w" using cfg by simp
  have sc: "scanner_of ?s1 = scanner_of s" by (simp add: scanner_of_def)
  have key: "cvKey ?s1 = cvKey s" by simp
  note c = parse_keystroke_claimed [OF pk cfg1, unfolded sc key]
  show ?thesis
  proof (cases "claimed_command (cvKey s)")
    case None
    with c ev show ?thesis by simp
  next
    case (Some cmd)
    with c have op: "claimed_operation w cmd (scanner_of s) = (scanner_of s', ev')"
      and b: "brk \<longleftrightarrow> cmd = Exit_application" by simp_all
    from claimed_operation_no_display [OF op] ev
    have "[e \<leftarrow> ev. \<not> is_display e] = ev'" by simp
    with op b Some show ?thesis by simp
  qed
qed

lemma command_loop_claimed:
  "command_loop w s ks = (brk, s', ev) \<Longrightarrow> configFile s = config_path w \<Longrightarrow>
     claimed_run w (scanner_of s) (cvKey s # ks)
       = (brk, scanner_of s', [e \<leftarrow> ev. \<not> is_display e])"
proof (induction ks arbitrary: s brk s' ev)
  case Nil
  then have lb: "loop_body w s = (brk, s', ev)" by simp
  from loop_body_claimed [OF lb Nil.prems(2)] show ?case
    by (cases "claimed_command (cvKey s)") auto
next
  case (Cons k ks)
  obtain b1 s1 ev1 where lb: "loop_body w s = (b1, s1, ev1)"
    by (cases "loop_body w s") auto
  note c = loop_body_claimed [OF lb Cons.prems(2)]
  have cfg1: "configFile s1 = config_path w"
    using loop_body_keeps(2) [OF lb] Cons.prems(2) by simp
  show ?case
  proof (cases b1)
    case True
    with Cons.prems(1) lb have eq: "brk = True" "s' = s1" "ev = ev1" by simp_all
    from c True eq show ?thesis
      by (cases "claimed_command (cvKey s)") auto
  next
    case False
    obtain b2 s2 ev2 where cl: "command_loop w (s1\<lparr>cvKey := k\<rparr>) ks = (b2, s2, ev2)"
      by (cases "command_loop w (s1\<lparr>cvKey := k\<rparr>) ks") auto
    with Cons.prems(1) lb False have eq: "brk = b2" "s' = s2" "ev = ev1 @ ev2" by simp_all
    have "claimed_run w (scanner_of (s1\<lparr>cvKey := k\<rparr>)) (cvKey (s1\<lparr>cvKey := k\<rparr>) # ks)
        = (b2, scanner_of s2, [e \<leftarrow> ev2. \<not> is_display e])"
      by (rule Cons.IH [OF cl]) (simp add: cfg1)
    then have ih: "claimed_run w (scanner_of s1) (k # ks)
        = (b2, scanner_of s2, [e \<leftarrow> ev2. \<not> is_display e])"
      by (simp add: scanner_of_def)
    show ?thesis
    proof (cases "claimed_command (cvKey s)")
      case None
      with c False have "scanner_of s1 = scanner_of s" "[e \<leftarrow> ev1. \<not> is_display e] = []"
        by simp_all
      with ih None eq show ?thesis by simp
    next
      case (Some cmd)
      with c False have "claimed_operation w cmd (scanner_of s)
          = (scanner_of s1, [e \<leftarrow> ev1. \<not> is_display e])" "cmd \<noteq> Exit_application"
        by simp_all
      with ih Some eq show ?thesis by simp
    qed
  qed
qed

lemma startup_no_operation:
  assumes "startup w = Inr (s, tr)"
  shows "[e \<leftarrow> tr. is_operation e] = []"
  using assms unfolding startup_def
  by (auto simp: Let_def split: option.splits prod.splits if_splits)

lemma sample_world_keys_start:
  "\<exists>s tr. startup (sample_world\<lparr>keys := ks\<rparr>) = Inr (s, tr) \<and> sl_params s = sample_params"
  by (simp add: startup_def create_camera_def config_path_def sample_world_def Let_def)

lemma operation_not_display:
  "[e \<leftarrow> ev. is_operation e] = [e \<leftarrow> [e \<leftarrow> ev. \<not> is_display e]. is_operation e]"
proof -
  have "is_operation e \<Longrightarrow> \<not> is_display e" for e by (cases e) simp_all
  then show ?thesis by (induction ev) auto
qed

text \<open>
  Claim C3, as stated: pressing S runs the scanner, B scans the background, and so on for
  R, C, P, A and E. The letters the claim and the menu name are compared with the
  characters \<^verbatim>\<open>'s'\<close>, \<^verbatim>\<open>'b'\<close>, ...; a key that arrives as the upper-case letter (with
  shift or caps lock) runs nothing. In the run whose keys are \<^verbatim>\<open>S B R C P A E\<close> and the
  escape key, no scan and no calibration is run, and the program exits with 0.
\<close>

theorem upper_case_keys_counterexample:
  "fst (main sample_world_upper_case) = Exit 0
   \<and> [e \<leftarrow> snd (main sample_world_upper_case). is_operation e] = []"
proof -
  let ?w = sample_world_upper_case
  obtain s0 tr where st: "startup ?w = Inr (s0, tr)"
    using sample_world_keys_start unfolding sample_world_upper_case_def by blast
  obtain brk s' ev where cl: "command_loop ?w s0 (keys ?w) = (brk, s', ev)"
    by (cases "command_loop ?w s0 (keys ?w)") auto
  have k: "keys ?w = map of_char ''SBRCPAE'' @ [27]"
    by (simp add: sample_world_upper_case_def)
  define nd where "nd = [e \<leftarrow> ev. \<not> is_display e]"
  have "claimed_run ?w (scanner_of s0) (cvKey s0 # keys ?w) = (brk, scanner_of s', nd)"
    unfolding nd_def
    by (rule command_loop_claimed [OF cl]) (simp add: startup_Inr(2) [OF st])
  then have "brk" and "[e \<leftarrow> nd. is_operation e] = []"
    by (auto simp: k startup_Inr(6) [OF st] claimed_command_def scanner_of_def
        split: if_splits)
  then have "brk" and "[e \<leftarrow> ev. is_operation e] = []"
    unfolding nd_def by (simp_all add: operation_not_display [of ev])
  with st cl startup_no_operation [OF st] show ?thesis
    by (simp add: main_def)
qed

text \<open>
  Claim C3, amended. In the command loop the keys are told apart by the lower-case
  character: \<^verbatim>\<open>'s'\<close> runs the scanner (on the next scan index), \<^verbatim>\<open>'b'\<close> scans the
  background (after filling it with the defaults), \<^verbatim>\<open>'r'\<close> resets the background,
  \<^verbatim>\<open>'c'\<close> runs the camera calibration, \<^verbatim>\<open>'p'\<close> the projector calibration, \<^verbatim>\<open>'a'\<close> the
  projector calibration with the flag of the simultaneous mode set, \<^verbatim>\<open>'e'\<close> the
  extrinsic calibration, and the escape key (27) writes the configuration and exits; any
  other character, the upper-case letters among them, runs nothing. For every sequence of
  keys, the run of the command loop from the session that startup leaves is the run of
  these commands in the order of the keys, up to the first escape key: the same
  parameters, calibration and scan index at the end, the same events apart from the
  display of the idle frame, and \<^verbatim>\<open>main\<close> returns 0 exactly if the escape key is among
  the keys (it waits for a key otherwise).
\<close>

theorem command_loop_runs_claimed_commands:
  assumes "startup w = Inr (s0, tr)" and "command_loop w s0 (keys w) = (brk, s', ev)"
  shows "claimed_run w (scanner_of s0) (keys w)
           = (brk, scanner_of s', [e \<leftarrow> ev. \<not> is_display e])
       \<and> (brk \<longleftrightarrow> 27 \<in> set (keys w))
       \<and> main w = (if 27 \<in> set (keys w)
                    then (Exit 0, tr @ ev @ [EndCapture, DestroyWindow ''projWindow''])
                    else (Waiting, tr @ ev))"
proof -
  note st = startup_Inr [OF assms(1)]
  have idle: "claimed_command (cvKey s0) = None"
    by (simp add: st(6) claimed_command_def)
  from command_loop_claimed [OF assms(2) st(2)] idle
  have run: "claimed_run w (scanner_of s0) (keys w)
           = (brk, scanner_of s', [e \<leftarrow> ev. \<not> is_display e])"
    by simp
  from command_loop_config [OF assms(2)] st(6)
  have brk: "brk \<longleftrightarrow> 27 \<in> set (keys w)" by simp
  with assms have "main w = (if 27 \<in> set (keys w)
                    then (Exit 0, tr @ ev @ [EndCapture, DestroyWindow ''projWindow''])
                    else (Waiting, tr @ ev))"
    by (simp add: main_def)
  with run brk show ?thesis by blast
qed

theorem command_loop_runs_claimed_commands_witness:
  "case startup sample_world_all_keys of
     Inl r \<Rightarrow> False
   | Inr (s0, tr) \<Rightarrow>
       (case command_loop sample_world_all_keys s0 (keys sample_world_all_keys) of
          (brk, s', ev) \<Rightarrow>
            brk \<and> scan_index s' = 1
            \<and> [e \<leftarrow> ev. \<not> is_display e]
                = [RunStructuredLight 1, RunBackgroundCapture, RunCameraCalibration,
                   RunProjectorCalibration False, RunProjectorCalibration True,
                   RunProCamExtrinsicCalibration,
                   WriteConfiguration ''./config.xml'' sample_params]
            \<and> fst (main sample_world_all_keys) = Exit 0)"
proof -
  let ?w = sample_world_all_keys
  obtain s0 tr where st: "startup ?w = Inr (s0, tr)" and p: "sl_params s0 = sample_params"
    using sample_world_keys_start unfolding sample_world_all_keys_def by blast
  obtain brk s' ev where cl: "command_loop ?w s0 (keys ?w) = (brk, s', ev)"
    by (cases "command_loop ?w s0 (keys ?w)") auto
  define nd where "nd = [e \<leftarrow> ev. \<not> is_display e]"
  have k: "keys ?w = map of_char ''sbrcpae'' @ [27]"
    by (simp add: sample_world_all_keys_def)
  have cfg: "config_path ?w = ''./config.xml''"
    by (simp add: config_path_def sample_world_all_keys_def sample_world_def)
  have ext: "runStructuredLight ?w = (\<lambda>p c i. (p, c))"
    "runBackgroundCapture ?w =
       (\<lambda>p c. (p, c\<lparr>background_depth_map :=
                         cvSet_mat (background_depth_map c) (cvScalar1 5)\<rparr>))"
    "runCameraCalibration ?w = (\<lambda>p c. (p, c))"
    "runProjectorCalibration ?w = (\<lambda>p c b. (p, c))"
    "runProCamExtrinsicCalibration ?w = (\<lambda>p c. (p, c))"
    by (simp_all add: sample_world_all_keys_def sample_world_def)
  have lg: "\<not> Logitech_9000 sample_params" by (simp add: sample_params_def)
  from command_loop_runs_claimed_commands [OF st cl]
  have run: "claimed_run ?w (scanner_of s0) (keys ?w) = (brk, scanner_of s', nd)"
    and m: "main ?w = (if 27 \<in> set (keys ?w)
                    then (Exit 0, tr @ ev @ [EndCapture, DestroyWindow ''projWindow''])
                    else (Waiting, tr @ ev))"
    unfolding nd_def by simp_all
  from run have "brk \<and> scan_index s' = 1
      \<and> nd = [RunStructuredLight 1, RunBackgroundCapture, RunCameraCalibration,
                   RunProjectorCalibration False, RunProjectorCalibration True,
                   RunProCamExtrinsicCalibration,
                   WriteConfiguration ''./config.xml'' sample_params]"
    by (auto simp: k claimed_command_def scanner_of_def ext cfg p lg
        startup_Inr(5) [OF st])
  moreover from m have "fst (main ?w) = Exit 0" by (simp add: k)
  ultimately show ?thesis using st cl by (simp add: nd_def)
qed

subsection \<open>Writing the configuration back (C5)\<close>

text \<open>
  Claim C5. On a clean exit (the escape key) the configuration is written, before the
  command loop ends, to the file that was read at startup; nothing else writes it: startup
  reads that one file and writes none, the events of the command loop hold one write, to
  that file, if the escape key is among the keys and none otherwise, and a pass through
  the chain of comparisons with any other key writes nothing.
\<close>

theorem configuration_written_on_exit:
  assumes "startup w = Inr (s0, tr)" and "command_loop w s0 ks = (brk, s', ev)"
  shows "[e \<leftarrow> tr. is_ReadConfiguration e] = [ReadConfiguration (config_path w)]
       \<and> [e \<leftarrow> tr. is_WriteConfiguration e] = []
       \<and> (brk \<longleftrightarrow> 27 \<in> set ks)
       \<and> [e \<leftarrow> ev. is_WriteConfiguration e]
           = (if 27 \<in> set ks then [WriteConfiguration (config_path w) (sl_params s')] else [])
       \<and> (cvKey s \<noteq> 27
          \<longrightarrow> [e \<leftarrow> snd (snd (parse_keystroke w' s)). is_WriteConfiguration e] = [])"
proof -
  note st = startup_Inr [OF assms(1)]
  from command_loop_config [OF assms(2)] st(2) st(6)
  have "brk \<longleftrightarrow> 27 \<in> set ks"
    and "[e \<leftarrow> ev. is_WriteConfiguration e]
           = (if 27 \<in> set ks then [WriteConfiguration (config_path w) (sl_params s')] else [])"
    by simp_all
  moreover have "[e \<leftarrow> snd (snd (parse_keystroke w' s)). is_WriteConfiguration e] = []"
    if "cvKey s \<noteq> 27"
    using parse_keystroke_keeps(5) [of w' s "fst (parse_keystroke w' s)"
        "fst (snd (parse_keystroke w' s))" "snd (snd (parse_keystroke w' s))"] that
    by simp
  ultimately show ?thesis using st(8) st(9) by blast
qed

theorem configuration_written_on_exit_witness:
  "case startup sample_world of
     Inl r \<Rightarrow> False
   | Inr (s0, tr) \<Rightarrow>
       (case command_loop sample_world s0 (keys sample_world) of (brk, s', ev) \<Rightarrow>
          brk
          \<and> [e \<leftarrow> tr. is_ReadConfiguration e] = [ReadConfiguration ''./config.xml'']
          \<and> [e \<leftarrow> tr @ ev. is_WriteConfiguration e]
              = [WriteConfiguration ''./config.xml'' (sl_params s')]
          \<and> [e \<leftarrow> snd (snd (parse_keystroke sample_world (s0\<lparr>cvKey := of_char CHR ''s''\<rparr>))).
                is_WriteConfiguration e] = [])"
proof -
  obtain s0 tr where st: "startup sample_world = Inr (s0, tr)"
    using sample_world_starts by blast
  obtain brk s' ev where cl: "command_loop sample_world s0 (keys sample_world) = (brk, s', ev)"
    by (cases "command_loop sample_world s0 (keys sample_world)") auto
  have esc: "27 \<in> set (keys sample_world)" by (simp add: sample_world_def)
  have cfg: "config_path sample_world = ''./config.xml''"
    by (simp add: config_path_def sample_world_def)
  have other: "cvKey (s0\<lparr>cvKey := of_char CHR ''s''\<rparr>) \<noteq> 27" by simp
  from configuration_written_on_exit
    [OF st cl, of "s0\<lparr>cvKey := of_char CHR ''s''\<rparr>" sample_world] esc cfg other st cl
  show ?thesis by simp
qed

subsection \<open>The colours of the projector frame (C7)\<close>

text \<open>
  Claim C7. The frame shown at startup is filled with \<^verbatim>\<open>cvScalar(255, 0, 0)\<close>, blue in
  the order blue, green, red; the frame shown at the top of every pass of the command loop
  is filled with \<^verbatim>\<open>cvScalar(255, 255, 255)\<close>, white. The two scalars differ, and so do
  the two frames as soon as the projector has a pixel.
\<close>

theorem startup_blue_idle_white:
  assumes "startup w = Inr (s0, tr)" and "command_loop w s0 ks = (brk, s', ev)"
  shows "[e \<leftarrow> tr. is_ShowImage e]
           = [ShowImage ''projWindow'' (solid_frame (sl_params s0) [255, 0, 0])]
       \<and> set [e \<leftarrow> ev. is_ShowImage e]
           = {ShowImage ''projWindow'' (solid_frame (sl_params s0) [255, 255, 255])}
       \<and> (0 < sint (proj_w (sl_params s0)) * sint (proj_h (sl_params s0))
          \<longrightarrow> solid_frame (sl_params s0) [255, 0, 0]
                \<noteq> solid_frame (sl_params s0) [255, 255, 255])
       \<and> cvScalar3 255 0 0 \<noteq> cvScalar3 255 255 255"
proof -
  note f0 = startup_frame [OF assms(1)]
  have a: "[e \<leftarrow> tr. is_ShowImage e]
           = [ShowImage ''projWindow'' (solid_frame (sl_params s0) [255, 0, 0])]"
    using startup_Inr(7) [OF assms(1)] f0 by simp
  have b: "set [e \<leftarrow> ev. is_ShowImage e]
           = {ShowImage ''projWindow'' (solid_frame (sl_params s0) [255, 255, 255])}"
    using command_loop_frame [OF assms(2) f0] by simp
  have c: "solid_frame (sl_params s0) [255, 0, 0] \<noteq> solid_frame (sl_params s0) [255, 255, 255]"
    if "0 < sint (proj_w (sl_params s0)) * sint (proj_h (sl_params s0))"
  proof -
    from that have "0 < nat (sint (proj_w (sl_params s0)) * sint (proj_h (sl_params s0)))"
      by simp
    then show ?thesis
      by (auto simp: solid_frame_def)
  qed
  have d: "cvScalar3 255 0 0 \<noteq> cvScalar3 255 255 255"
    by (simp add: cvScalar3_def)
  from a b c d show ?thesis by blast
qed

theorem startup_blue_idle_white_witness:
  "case startup sample_world of
     Inl r \<Rightarrow> False
   | Inr (s0, tr) \<Rightarrow>
       (case command_loop sample_world s0 (keys sample_world) of (brk, s', ev) \<Rightarrow>
          [e \<leftarrow> tr. is_ShowImage e]
            = [ShowImage ''projWindow'' (solid_frame sample_params [255, 0, 0])]
          \<and> set [e \<leftarrow> ev. is_ShowImage e]
              = {ShowImage ''projWindow'' (solid_frame sample_params [255, 255, 255])}
          \<and> solid_frame sample_params [255, 0, 0] \<noteq> solid_frame sample_params [255, 255, 255])"
proof -
  obtain s0 tr where st: "startup sample_world = Inr (s0, tr)"
    and p: "sl_params s0 = sample_params"
    using sample_world_starts by blast
  obtain brk s' ev where cl: "command_loop sample_world s0 (keys sample_world) = (brk, s', ev)"
    by (cases "command_loop sample_world s0 (keys sample_world)") auto
  have area: "0 < sint (proj_w (sl_params s0)) * sint (proj_h (sl_params s0))"
    by (simp add: p sample_params_def)
  from startup_blue_idle_white [OF st cl] area p st cl show ?thesis by simp
qed

subsection \<open>Exit codes (C2)\<close>

text \<open>
  The fatal errors of startup other than those of the Kinect back-end end the run with
  \<open>-1\<close> (after a key, where the program waits for one), and the escape key ends it with 0.
\<close>

lemma other_startup_failures_exit_minus_one:
  assumes "create_camera w = None"
  shows "readConfiguration w (config_path w) = None
           \<Longrightarrow> fst (main w) = getch_return (keys w) (- 1)"
    and "readConfiguration w (config_path w) = Some p0 \<Longrightarrow> fst (camera_Init w p0) \<noteq> 0
           \<Longrightarrow> fst (main w) = Exit (- 1)"
    and "readConfiguration w (config_path w) = Some p0 \<Longrightarrow> fst (camera_Init w p0) = 0
           \<Longrightarrow> camera_StartCapture w \<noteq> 0 \<Longrightarrow> fst (main w) = Exit (- 1)"
    and "readConfiguration w (config_path w) = Some p0 \<Longrightarrow> fst (camera_Init w p0) = 0
           \<Longrightarrow> camera_StartCapture w = 0 \<Longrightarrow> \<not> camera_QueryFrame w
           \<Longrightarrow> fst (main w) = getch_return (keys w) (- 1)"
    and "readConfiguration w (config_path w) = Some p0 \<Longrightarrow> fst (camera_Init w p0) = 0
           \<Longrightarrow> camera_StartCapture w = 0 \<Longrightarrow> camera_QueryFrame w
           \<Longrightarrow> mkdir_status w \<noteq> 0
           \<Longrightarrow> fst (main w) = getch_return (keys w) (- 1)"
  using assms
  by (auto simp: main_def startup_def Let_def split: prod.splits)

lemma getch_return_nonzero:
  "getch_return ks (- 1) \<noteq> Exit 0" "Exit (- 1) \<noteq> Exit (0 :: c_int)"
  "ks \<noteq> [] \<Longrightarrow> getch_return ks c = Exit c"
  by (auto simp: getch_return_def split: list.splits)

lemma clean_exit_zero:
  assumes "startup w = Inr (s0, tr)"
  shows "fst (main w) = (if 27 \<in> set (keys w) then Exit 0 else Waiting)"
proof -
  obtain brk s' ev where cl: "command_loop w s0 (keys w) = (brk, s', ev)"
    by (cases "command_loop w s0 (keys w)") auto
  from command_loop_config [OF cl] startup_Inr(6) [OF assms]
  have "brk \<longleftrightarrow> 27 \<in> set (keys w)" by simp
  with assms cl show ?thesis by (simp add: main_def)
qed

text \<open>
  Claim C2. Every fatal error of startup ends the program with an exit code that is not
  zero, the failure to find or to open a Kinect device included, and the escape key ends it
  with 0. The program does otherwise on the Kinect back-end: when no device is found, or
  the device cannot be opened, \<^verbatim>\<open>main\<close> returns 0, before any other event.
\<close>

theorem kinect_failure_exits_zero:
  assumes "USE_CAMERA_ID w \<notin> {0, 1, 2}"
    and "sint (GetKinectCount w) < 1 \<or> \<not> GetKinect w"
  shows "main w = (Exit 0, [])"
  using assms by (auto simp: main_def startup_def create_camera_def)

theorem kinect_failure_exits_zero_witness:
  "USE_CAMERA_ID sample_world_no_kinect = 3
   \<and> GetKinectCount sample_world_no_kinect = 0
   \<and> main sample_world_no_kinect = (Exit 0, [])"
proof -
  have a: "USE_CAMERA_ID sample_world_no_kinect \<notin> {0, 1, 2}"
    by (simp add: sample_world_no_kinect_def)
  have b: "sint (GetKinectCount sample_world_no_kinect) < 1
      \<or> \<not> GetKinect sample_world_no_kinect"
    by (simp add: sample_world_no_kinect_def)
  from kinect_failure_exits_zero [OF a b] show ?thesis
    by (simp add: sample_world_no_kinect_def)
qed

end
